theory Spec2Isabelle
  imports Complex_Main
begin

section \<open>Values of the client\<close>

text \<open>
  The client is one Python file, \<^verbatim>\<open>main.py\<close>: a worker thread that owns the
  WebSocket (\<^verbatim>\<open>WebSocketClientThread\<close>) and a window that holds the player state
  and handles the decoded messages, the keys and the timer (\<^verbatim>\<open>GameWindow\<close>).

  Coordinates are Python floats. A float is modelled by the number it denotes, with the
  three values that are not numbers kept apart, since the code compares coordinates with
  \<^verbatim>\<open>!=\<close>, \<^verbatim>\<open>min\<close> and \<^verbatim>\<open>max\<close> and \<^verbatim>\<open>json.loads\<close> accepts
  \<^verbatim>\<open>NaN\<close>, \<^verbatim>\<open>Infinity\<close> and \<^verbatim>\<open>-Infinity\<close>. Sums of finite floats are taken
  exactly: the rounding to 53 bits is not modelled (the code only adds and subtracts
  \<^verbatim>\<open>1.0\<close>, which is exact on grid coordinates), and \<^verbatim>\<open>0.0\<close> and \<^verbatim>\<open>-0.0\<close>, which
  compare equal, are one value.
\<close>

datatype pyfloat = NaN | NInf | Fin real | PInf

fun flt_lt :: "pyfloat \<Rightarrow> pyfloat \<Rightarrow> bool" where
  "flt_lt NaN b = False"
| "flt_lt a NaN = False"
| "flt_lt a NInf = False"
| "flt_lt NInf b = True"
| "flt_lt PInf b = False"
| "flt_lt (Fin a) PInf = True"
| "flt_lt (Fin a) (Fin b) = (a < b)"

fun flt_eq :: "pyfloat \<Rightarrow> pyfloat \<Rightarrow> bool" where
  "flt_eq NaN b = False"
| "flt_eq a NaN = False"
| "flt_eq a b = (a = b)"

definition flt_ne :: "pyfloat \<Rightarrow> pyfloat \<Rightarrow> bool" where
  "flt_ne a b = (\<not> flt_eq a b)"

definition flt_le :: "pyfloat \<Rightarrow> pyfloat \<Rightarrow> bool" where
  "flt_le a b = (flt_lt a b \<or> flt_eq a b)"

fun flt_neg :: "pyfloat \<Rightarrow> pyfloat" where
  "flt_neg NaN = NaN"
| "flt_neg NInf = PInf"
| "flt_neg PInf = NInf"
| "flt_neg (Fin a) = Fin (- a)"

fun flt_add :: "pyfloat \<Rightarrow> pyfloat \<Rightarrow> pyfloat" where
  "flt_add NaN b = NaN"
| "flt_add a NaN = NaN"
| "flt_add PInf NInf = NaN"
| "flt_add NInf PInf = NaN"
| "flt_add PInf b = PInf"
| "flt_add a PInf = PInf"
| "flt_add NInf b = NInf"
| "flt_add a NInf = NInf"
| "flt_add (Fin a) (Fin b) = Fin (a + b)"

definition flt_sub :: "pyfloat \<Rightarrow> pyfloat \<Rightarrow> pyfloat" where
  "flt_sub a b = flt_add a (flt_neg b)"

text \<open>
  The builtins \<^verbatim>\<open>min(a, b)\<close> and \<^verbatim>\<open>max(a, b)\<close> keep the first argument unless the
  second is strictly smaller (greater), so a NaN in first place stays and a NaN in second
  place is dropped.
\<close>

definition py_min :: "pyfloat \<Rightarrow> pyfloat \<Rightarrow> pyfloat" where
  "py_min a b = (if flt_lt b a then b else a)"

definition py_max :: "pyfloat \<Rightarrow> pyfloat \<Rightarrow> pyfloat" where
  "py_max a b = (if flt_lt a b then b else a)"

datatype py_error = AttributeError | TypeError | ValueError | OverflowError

text \<open>\<^verbatim>\<open>int(x)\<close> of a float truncates towards zero and raises on NaN and the infinities.\<close>

definition trunc :: "real \<Rightarrow> int" where
  "trunc r = (if 0 \<le> r then \<lfloor>r\<rfloor> else \<lceil>r\<rceil>)"

fun py_int :: "pyfloat \<Rightarrow> py_error + int" where
  "py_int NaN = Inl ValueError"
| "py_int NInf = Inl OverflowError"
| "py_int PInf = Inl OverflowError"
| "py_int (Fin r) = Inr (trunc r)"

text \<open>
  A decoded JSON value, as \<^verbatim>\<open>json.loads\<close> returns it: \<^verbatim>\<open>None\<close>, a bool, an int,
  a float, a str, a list, or a dict (given by its items, the keys distinct).
\<close>

datatype json =
    JNull
  | JBool bool
  | JInt int
  | JFloat pyfloat
  | JStr string
  | JArr "json list"
  | JObj "(string \<times> json) list"

text \<open>Truth value of a Python object, for \<^verbatim>\<open>and payload\<close> and \<^verbatim>\<open>if payload\<close>.\<close>

fun truthy :: "json \<Rightarrow> bool" where
  "truthy JNull = False"
| "truthy (JBool b) = b"
| "truthy (JInt n) = (n \<noteq> 0)"
| "truthy (JFloat f) = (\<not> flt_eq f (Fin 0))"
| "truthy (JStr s) = (s \<noteq> [])"
| "truthy (JArr xs) = (xs \<noteq> [])"
| "truthy (JObj kvs) = (kvs \<noteq> [])"

text \<open>
  \<^verbatim>\<open>d.get(k)\<close> and \<^verbatim>\<open>d.get(k, default)\<close>: only a dict has the method; a missing key
  gives the default, \<^verbatim>\<open>None\<close> when there is none.
\<close>

fun get_default :: "json \<Rightarrow> string \<Rightarrow> json \<Rightarrow> py_error + json" where
  "get_default (JObj kvs) k d = Inr (case map_of kvs k of None \<Rightarrow> d | Some v \<Rightarrow> v)"
| "get_default other k d = Inl AttributeError"

definition get :: "json \<Rightarrow> string \<Rightarrow> py_error + json" where
  "get j k = get_default j k JNull"

text \<open>
  \<^verbatim>\<open>float(v)\<close>. Python's parser of numerals in a str is not part of the repository: it is
  the parameter \<open>parse\<close>, \<open>None\<close> where it raises \<^verbatim>\<open>ValueError\<close>. An int that rounds to
  \<open>2 ^ 1024\<close> or beyond raises \<^verbatim>\<open>OverflowError\<close>.
\<close>

definition float_limit :: int where
  "float_limit = 2 ^ 1024 - 2 ^ 970"

fun py_float :: "(string \<Rightarrow> pyfloat option) \<Rightarrow> json \<Rightarrow> py_error + pyfloat" where
  "py_float parse JNull = Inl TypeError"
| "py_float parse (JBool b) = Inr (Fin (if b then 1 else 0))"
| "py_float parse (JInt n) = (if \<bar>n\<bar> < float_limit then Inr (Fin (of_int n)) else Inl OverflowError)"
| "py_float parse (JFloat f) = Inr f"
| "py_float parse (JStr s) = (case parse s of None \<Rightarrow> Inl ValueError | Some f \<Rightarrow> Inr f)"
| "py_float parse (JArr xs) = Inl TypeError"
| "py_float parse (JObj kvs) = Inl TypeError"

text \<open>
  \<^verbatim>\<open>for player_data in payload\<close>: a list gives its elements, a dict its keys, a str its
  characters; a number or a bool is not iterable.
\<close>

fun py_iter :: "json \<Rightarrow> py_error + json list" where
  "py_iter (JArr xs) = Inr xs"
| "py_iter (JObj kvs) = Inr (map (\<lambda>kv. JStr (fst kv)) kvs)"
| "py_iter (JStr s) = Inr (map (\<lambda>c. JStr [c]) s)"
| "py_iter other = Inl TypeError"

text \<open>
  \<^verbatim>\<open>user_id == self.user_id\<close>, the right side an int: a bool or a float equal in value is
  equal, a str, a list or a dict never is.
\<close>

fun eq_int :: "json \<Rightarrow> int \<Rightarrow> bool" where
  "eq_int (JBool b) n = ((if b then 1 else 0) = n)"
| "eq_int (JInt m) n = (m = n)"
| "eq_int (JFloat (Fin r)) n = (r = of_int n)"
| "eq_int other n = False"

text \<open>
  Keys of the dict \<^verbatim>\<open>other_players\<close>. A list or a dict is unhashable: looking it up
  raises \<^verbatim>\<open>TypeError\<close>. Two keys are the same entry when they are equal in value; the
  decoder's NaN is one object, which a dict finds by identity.
\<close>

fun hashable :: "json \<Rightarrow> bool" where
  "hashable (JArr xs) = False"
| "hashable (JObj kvs) = False"
| "hashable other = True"

fun num_of :: "json \<Rightarrow> pyfloat option" where
  "num_of (JBool b) = Some (Fin (if b then 1 else 0))"
| "num_of (JInt n) = Some (Fin (of_int n))"
| "num_of (JFloat f) = Some f"
| "num_of other = None"

definition same_key :: "json \<Rightarrow> json \<Rightarrow> bool" where
  "same_key a b =
     (case (num_of a, num_of b) of
        (Some x, Some y) \<Rightarrow> x = y
      | (None, None) \<Rightarrow> a = b
      | (u, v) \<Rightarrow> False)"

fun dict_lookup :: "(json \<times> 'v) list \<Rightarrow> json \<Rightarrow> 'v option" where
  "dict_lookup [] k = None"
| "dict_lookup ((k', v) # kvs) k = (if same_key k' k then Some v else dict_lookup kvs k)"

fun dict_update :: "(json \<times> 'v) list \<Rightarrow> json \<Rightarrow> 'v \<Rightarrow> (json \<times> 'v) list" where
  "dict_update [] k v = [(k, v)]"
| "dict_update ((k', v') # kvs) k v =
     (if same_key k' k then (k', v) # kvs else (k', v') # dict_update kvs k v)"

fun dict_pop :: "(json \<times> 'v) list \<Rightarrow> json \<Rightarrow> (json \<times> 'v) list" where
  "dict_pop [] k = []"
| "dict_pop ((k', v') # kvs) k =
     (if same_key k' k then kvs else (k', v') # dict_pop kvs k)"


section \<open>What the client does to the outside\<close>

text \<open>
  Every call that leaves the object is recorded, in order: a \<^verbatim>\<open>print\<close>, a call of the
  position timer, a call of \<^verbatim>\<open>websocket_thread.send_message\<close>, a
  \<^verbatim>\<open>QMessageBox.critical\<close>, a status-bar message, the stop and the join of the
  worker and the closing of the window on the window's side; the emission
  of a Qt signal, the creation and run of a \<^verbatim>\<open>WebSocketApp\<close>, a \<^verbatim>\<open>time.sleep\<close>,
  \<^verbatim>\<open>ws.send\<close> and \<^verbatim>\<open>ws.close\<close> on the worker's side. A signal is delivered by Qt:
  the model records the emission, and the slot connected to it is a step of its own.
\<close>

datatype frame =
    PlayerPosition int pyfloat pyfloat pyfloat
  | PlayerLogout int

datatype log =
    MissingUserIdPosition
  | MissingUserIdDisconnected
  | ReceivedDisconnected json
  | ReceivedInitialPlayers
  | MissingUserIdInitial json
  | SetInitialPosition
  | TimerStartedLog
  | UnknownMessage json
  | JsonDecodeLog
  | HandlingErrorLog py_error
  | IgnoringSelf json
  | AttemptRemove json
  | Removed json
  | NotFound json
  | ConnectionClosedLog
  | ConnectionErrorLog string
  | ConnectionOpenedLog
  | ExitClickedLog
  | SentLogoutLog
  | ThreadAliveLog
  | ThreadTerminatedLog
  | WsErrorLog string
  | WsClosedLog
  | WsOpenedLog
  | ThreadStartingLog
  | ReconnectLog
  | RetryLog
  | MessageSentLog frame
  | ClosedCannotSendLog
  | SendErrorLog
  | NotConnectedLog
  | StoppingLog
  | CloseErrorLog

datatype box = JsonErrorBox | HandlingErrorBox py_error

datatype signal = MessageReceived string | ErrorOccurred string | Closed | Opened

datatype effect =
    Print log
  | TimerStart nat
  | TimerStop
  | SendMessage frame
  | MessageBox box
  | StatusBar string
  | Emit signal
  | StopThread
  | JoinThread real
  | CloseWindow
  | Connect
  | Sleep real
  | WsSend frame
  | WsClose

section \<open>GameWindow\<close>

text \<open>
  The fields of \<^verbatim>\<open>GameWindow\<close> that the handlers read and write. An entry of
  \<^verbatim>\<open>other_players\<close> is the item group drawn for that player, given by the tile
  coordinates its ellipse and its text were last placed at; \<^verbatim>\<open>my_player_item\<close> is
  the same for the local player, \<open>None\<close> until it is first drawn.
  \<^verbatim>\<open>position_label\<close> is the pair of ints its text shows.
\<close>

record game =
  user_id :: int
  player_x :: pyfloat
  player_y :: pyfloat
  player_z :: pyfloat
  other_players :: "(json \<times> (pyfloat \<times> pyfloat)) list"
  my_player_item :: "(pyfloat \<times> pyfloat) option"
  position_label :: "int \<times> int"
  position_timer_started :: bool
  last_sent_x :: pyfloat
  last_sent_y :: pyfloat
  last_sent_z :: pyfloat

type_synonym outcome = "(game \<times> effect list) \<times> py_error option"

definition MAP_WIDTH_TILES :: real where
  "MAP_WIDTH_TILES = 40"

definition MAP_HEIGHT_TILES :: real where
  "MAP_HEIGHT_TILES = 20"

text \<open>\<^verbatim>\<open>GameWindow.__init__\<close>, lines 124-153.\<close>

definition GameWindow_init :: "int \<Rightarrow> game" where
  "GameWindow_init uid =
     \<lparr>user_id = uid,
      player_x = Fin 0, player_y = Fin 0, player_z = Fin 0,
      other_players = [],
      my_player_item = None,
      position_label = (0, 0),
      position_timer_started = False,
      last_sent_x = Fin (- 1), last_sent_y = Fin (- 1), last_sent_z = Fin (- 1)\<rparr>"

text \<open>
  The statement of lines 215 and 247, which formats \<^verbatim>\<open>int(self.player_x)\<close> and
  \<^verbatim>\<open>int(self.player_y)\<close> into the label.
\<close>

definition set_position_label :: "game \<Rightarrow> game \<times> py_error option" where
  "set_position_label g =
     (case py_int (player_x g) of
        Inl e \<Rightarrow> (g, Some e)
      | Inr a \<Rightarrow>
          (case py_int (player_y g) of
             Inl e \<Rightarrow> (g, Some e)
           | Inr b \<Rightarrow> (g\<lparr>position_label := (a, b)\<rparr>, None)))"

definition update_player_visual ::
  "game \<Rightarrow> json \<Rightarrow> pyfloat \<Rightarrow> pyfloat \<Rightarrow> pyfloat \<Rightarrow> game \<times> py_error option" where
  "update_player_visual g uid x y z =
     (if eq_int uid (user_id g) then
        set_position_label (g\<lparr>my_player_item := Some (x, y)\<rparr>)
      else if \<not> hashable uid then (g, Some TypeError)
      else (g\<lparr>other_players := dict_update (other_players g) uid (x, y)\<rparr>, None))"

definition remove_player_visual :: "game \<Rightarrow> json \<Rightarrow> outcome" where
  "remove_player_visual g uid =
     (if eq_int uid (user_id g) then ((g, [Print (IgnoringSelf uid)]), None)
      else if \<not> hashable uid then ((g, []), Some TypeError)
      else
        (case dict_lookup (other_players g) uid of
           Some item \<Rightarrow>
             ((g\<lparr>other_players := dict_pop (other_players g) uid\<rparr>,
               [Print (AttemptRemove uid), Print (Removed uid)]), None)
         | None \<Rightarrow> ((g, [Print (NotFound uid)]), None)))"

definition send_current_position :: "game \<Rightarrow> game \<times> effect list" where
  "send_current_position g =
     (if flt_ne (last_sent_x g) (player_x g) \<or>
         flt_ne (last_sent_y g) (player_y g) \<or>
         flt_ne (last_sent_z g) (player_z g)
      then
        (g\<lparr>last_sent_x := player_x g, last_sent_y := player_y g, last_sent_z := player_z g\<rparr>,
         [SendMessage (PlayerPosition (user_id g) (player_x g) (player_y g) (player_z g))])
      else (g, []))"

datatype key = Key_W | Key_S | Key_A | Key_D | Key_other

text \<open>The chain of lines 193-206: the requested position and whether a key moved.\<close>

fun key_target :: "game \<Rightarrow> key \<Rightarrow> pyfloat \<times> pyfloat \<times> bool" where
  "key_target g Key_W = (player_x g, flt_sub (player_y g) (Fin 1), True)"
| "key_target g Key_S = (player_x g, flt_add (player_y g) (Fin 1), True)"
| "key_target g Key_A = (flt_sub (player_x g) (Fin 1), player_y g, True)"
| "key_target g Key_D = (flt_add (player_x g) (Fin 1), player_y g, True)"
| "key_target g Key_other = (player_x g, player_y g, False)"

definition keyPressEvent :: "game \<Rightarrow> key \<Rightarrow> outcome" where
  "keyPressEvent g k =
     (case key_target g k of
        (req_x, req_y, moved) \<Rightarrow>
          (let new_x = py_max (Fin 0) (py_min req_x (Fin (MAP_WIDTH_TILES - 1)));
               new_y = py_max (Fin 0) (py_min req_y (Fin (MAP_HEIGHT_TILES - 1)))
           in if moved then
                (let g1 = g\<lparr>player_x := new_x, player_y := new_y\<rparr> in
                 case update_player_visual g1 (JInt (user_id g1))
                        (player_x g1) (player_y g1) (player_z g1) of
                   (g2, Some e) \<Rightarrow> ((g2, []), Some e)
                 | (g2, None) \<Rightarrow>
                     (case set_position_label g2 of
                        (g3, Some e) \<Rightarrow> ((g3, []), Some e)
                      | (g3, None) \<Rightarrow> (send_current_position g3, None)))
              else ((g, []), None)))"

text \<open>
  Lines 291-297 and 318-324 read a player the same way: \<^verbatim>\<open>user_id\<close>, which may be
  missing (\<open>None\<close> here), then \<^verbatim>\<open>float\<close> of \<^verbatim>\<open>x\<close>, of \<^verbatim>\<open>y\<close> and of \<^verbatim>\<open>z\<close>
  with its default.
\<close>

definition read_player ::
  "(string \<Rightarrow> pyfloat option) \<Rightarrow> json \<Rightarrow>
     py_error + (json \<times> pyfloat \<times> pyfloat \<times> pyfloat) option" where
  "read_player parse d =
     (case get d ''user_id'' of
        Inl e \<Rightarrow> Inl e
      | Inr uid \<Rightarrow>
          if uid = JNull then Inr None
          else
            (case get d ''x'' of
               Inl e \<Rightarrow> Inl e
             | Inr vx \<Rightarrow>
            (case py_float parse vx of
               Inl e \<Rightarrow> Inl e
             | Inr x \<Rightarrow>
            (case get d ''y'' of
               Inl e \<Rightarrow> Inl e
             | Inr vy \<Rightarrow>
            (case py_float parse vy of
               Inl e \<Rightarrow> Inl e
             | Inr y \<Rightarrow>
            (case get_default d ''z'' (JFloat (Fin 0)) of
               Inl e \<Rightarrow> Inl e
             | Inr vz \<Rightarrow>
            (case py_float parse vz of
               Inl e \<Rightarrow> Inl e
             | Inr z \<Rightarrow> Inr (Some (uid, x, y, z)))))))))"

text \<open>The branch of \<^verbatim>\<open>PlayerPosition\<close>, lines 291-304.\<close>

definition on_player_position :: "(string \<Rightarrow> pyfloat option) \<Rightarrow> game \<Rightarrow> json \<Rightarrow> outcome" where
  "on_player_position parse g payload =
     (case read_player parse payload of
        Inl e \<Rightarrow> ((g, []), Some e)
      | Inr None \<Rightarrow> ((g, [Print MissingUserIdPosition]), None)
      | Inr (Some (uid, x, y, z)) \<Rightarrow>
          (let g1 = (if eq_int uid (user_id g)
                     then g\<lparr>player_x := x, player_y := y, player_z := z\<rparr> else g)
           in case update_player_visual g1 uid x y z of (g2, r) \<Rightarrow> ((g2, []), r)))"

text \<open>The branch of \<^verbatim>\<open>PlayerDisconnected\<close>, lines 307-312.\<close>

definition on_player_disconnected :: "game \<Rightarrow> json \<Rightarrow> outcome" where
  "on_player_disconnected g payload =
     (case get payload ''user_id'' of
        Inl e \<Rightarrow> ((g, []), Some e)
      | Inr uid \<Rightarrow>
          if uid = JNull then ((g, [Print MissingUserIdDisconnected]), None)
          else
            (case remove_player_visual g uid of
               ((g1, es), r) \<Rightarrow> ((g1, Print (ReceivedDisconnected uid) # es), r)))"

text \<open>
  Lines 327-336, for a roster entry with the local id: its position becomes the local one
  and, when the timer is not started, the timer is started, the flag set and the position
  sent.
\<close>

definition adopt_initial_position ::
  "game \<Rightarrow> pyfloat \<Rightarrow> pyfloat \<Rightarrow> pyfloat \<Rightarrow> game \<times> effect list" where
  "adopt_initial_position g x y z =
     (let ga = g\<lparr>player_x := x, player_y := y, player_z := z\<rparr> in
      if \<not> position_timer_started ga then
        (case send_current_position (ga\<lparr>position_timer_started := True\<rparr>) of
           (gb, es) \<Rightarrow>
             (gb, [Print SetInitialPosition, TimerStart 100, Print TimerStartedLog] @ es))
      else (ga, [Print SetInitialPosition]))"

text \<open>One turn of the loop over the roster, lines 318-338.\<close>

definition roster_entry :: "(string \<Rightarrow> pyfloat option) \<Rightarrow> game \<Rightarrow> json \<Rightarrow> outcome" where
  "roster_entry parse g player_data =
     (case read_player parse player_data of
        Inl e \<Rightarrow> ((g, []), Some e)
      | Inr None \<Rightarrow> ((g, [Print (MissingUserIdInitial player_data)]), None)
      | Inr (Some (uid, x, y, z)) \<Rightarrow>
          (case (if eq_int uid (user_id g) then adopt_initial_position g x y z
                 else (g, [])) of
             (g1, es1) \<Rightarrow>
               (case update_player_visual g1 uid x y z of (g2, r) \<Rightarrow> ((g2, es1), r))))"

fun roster_loop :: "(string \<Rightarrow> pyfloat option) \<Rightarrow> game \<Rightarrow> json list \<Rightarrow> outcome" where
  "roster_loop parse g [] = ((g, []), None)"
| "roster_loop parse g (player_data # rest) =
     (case roster_entry parse g player_data of
        ((g1, es1), Some e) \<Rightarrow> ((g1, es1), Some e)
      | ((g1, es1), None) \<Rightarrow>
          (case roster_loop parse g1 rest of ((g2, es2), r) \<Rightarrow> ((g2, es1 @ es2), r)))"

text \<open>The branch of \<^verbatim>\<open>InitialPlayers\<close>, lines 315-338.\<close>

definition on_initial_players :: "(string \<Rightarrow> pyfloat option) \<Rightarrow> game \<Rightarrow> json \<Rightarrow> outcome" where
  "on_initial_players parse g payload =
     (if truthy payload then
        (case py_iter payload of
           Inl e \<Rightarrow> ((g, [Print ReceivedInitialPlayers]), Some e)
         | Inr items \<Rightarrow>
             (case roster_loop parse g items of
                ((g1, es), r) \<Rightarrow> ((g1, Print ReceivedInitialPlayers # es), r)))
      else ((g, [Print ReceivedInitialPlayers]), None))"

text \<open>The body of the \<^verbatim>\<open>try\<close> after \<^verbatim>\<open>json.loads\<close>, lines 287-340.\<close>

definition handle_data :: "(string \<Rightarrow> pyfloat option) \<Rightarrow> game \<Rightarrow> json \<Rightarrow> outcome" where
  "handle_data parse g data =
     (case get data ''type'' of
        Inl e \<Rightarrow> ((g, []), Some e)
      | Inr msg_type \<Rightarrow>
     (case get data ''payload'' of
        Inl e \<Rightarrow> ((g, []), Some e)
      | Inr payload \<Rightarrow>
          if msg_type = JStr ''PlayerPosition'' \<and> truthy payload then
            on_player_position parse g payload
          else if msg_type = JStr ''PlayerDisconnected'' \<and> truthy payload then
            on_player_disconnected g payload
          else if msg_type = JStr ''InitialPlayers'' then
            on_initial_players parse g payload
          else ((g, [Print (UnknownMessage data)]), None)))"

text \<open>
  The message as \<^verbatim>\<open>json.loads\<close> leaves it: the decoder is the standard library's, so
  the handler takes its result, the exception or the decoded value.
\<close>

datatype loads_result = JSONDecodeError | Loaded json

definition websocket_on_message ::
  "(string \<Rightarrow> pyfloat option) \<Rightarrow> game \<Rightarrow> loads_result \<Rightarrow> game \<times> effect list" where
  "websocket_on_message parse g message =
     (case message of
        JSONDecodeError \<Rightarrow> (g, [Print JsonDecodeLog, MessageBox JsonErrorBox])
      | Loaded data \<Rightarrow>
          (case handle_data parse g data of
             ((g1, es), None) \<Rightarrow> (g1, es)
           | ((g1, es), Some e) \<Rightarrow>
               (g1, es @ [Print (HandlingErrorLog e), MessageBox (HandlingErrorBox e)])))"

definition handle_websocket_close :: "game \<Rightarrow> game \<times> effect list" where
  "handle_websocket_close g =
     (if position_timer_started g then
        (g\<lparr>position_timer_started := False\<rparr>,
         [Print ConnectionClosedLog, TimerStop, StatusBar ''Disconnected from server.''])
      else (g, [Print ConnectionClosedLog, StatusBar ''Disconnected from server.'']))"

definition handle_websocket_error :: "game \<Rightarrow> string \<Rightarrow> game \<times> effect list" where
  "handle_websocket_error g error_message =
     (case handle_websocket_close g of
        (g1, es) \<Rightarrow> (g1, Print (ConnectionErrorLog error_message) # es))"

definition handle_websocket_open :: "game \<Rightarrow> game \<times> effect list" where
  "handle_websocket_open g = (g, [Print ConnectionOpenedLog, StatusBar ''Connected to server.''])"


text \<open>
  \<^verbatim>\<open>exit_game\<close>, lines 361-382; \<open>alive\<close> says whether the worker is still alive after
  the join. The \<^verbatim>\<open>closeEvent\<close> that Qt calls for \<^verbatim>\<open>self.close()\<close> is a step of its own.
\<close>

definition exit_game :: "bool \<Rightarrow> game \<Rightarrow> game \<times> effect list" where
  "exit_game alive g =
     (g, [Print ExitClickedLog, SendMessage (PlayerLogout (user_id g)), Print SentLogoutLog,
          Sleep 0.5, StopThread, JoinThread 5,
          Print (if alive then ThreadAliveLog else ThreadTerminatedLog), CloseWindow])"

text \<open>
  The slots of the window, as Qt's event loop calls them one at a time: the four signals
  of the worker, a key press, and the timeout of the position timer, which is connected
  to \<^verbatim>\<open>send_current_position\<close>. A key press raises nothing (see
  \<open>keyPressEvent_no_error\<close> below), so only its state and effects are kept.
\<close>

datatype ui_event =
    MessageEvent loads_result
  | ErrorEvent string
  | ClosedEvent
  | OpenedEvent
  | KeyEvent key
  | TimerTimeout

fun dispatch :: "(string \<Rightarrow> pyfloat option) \<Rightarrow> game \<Rightarrow> ui_event \<Rightarrow> game \<times> effect list" where
  "dispatch parse g (MessageEvent m) = websocket_on_message parse g m"
| "dispatch parse g (ErrorEvent e) = handle_websocket_error g e"
| "dispatch parse g ClosedEvent = handle_websocket_close g"
| "dispatch parse g OpenedEvent = handle_websocket_open g"
| "dispatch parse g (KeyEvent k) = fst (keyPressEvent g k)"
| "dispatch parse g TimerTimeout = send_current_position g"

fun run_events ::
  "(string \<Rightarrow> pyfloat option) \<Rightarrow> game \<Rightarrow> ui_event list \<Rightarrow> game \<times> effect list" where
  "run_events parse g [] = (g, [])"
| "run_events parse g (ev # evs) =
     (case dispatch parse g ev of
        (g1, es1) \<Rightarrow> (case run_events parse g1 evs of (g2, es2) \<Rightarrow> (g2, es1 @ es2)))"

section \<open>WebSocketClientThread\<close>






















section \<open>Vocabulary of the properties\<close>

definition position :: "game \<Rightarrow> pyfloat \<times> pyfloat \<times> pyfloat" where
  "position g = (player_x g, player_y g, player_z g)"

definition last_sent :: "game \<Rightarrow> pyfloat \<times> pyfloat \<times> pyfloat" where
  "last_sent g = (last_sent_x g, last_sent_y g, last_sent_z g)"

definition nan_free :: "game \<Rightarrow> bool" where
  "nan_free g = (player_x g \<noteq> NaN \<and> player_y g \<noteq> NaN \<and> player_z g \<noteq> NaN)"

text \<open>What a message handler does to the outside: it prints, starts the timer, submits a frame.\<close>

fun plain :: "effect \<Rightarrow> bool" where
  "plain (Print l) = True"
| "plain (TimerStart n) = True"
| "plain (SendMessage f) = True"
| "plain other = False"

text \<open>The frames submitted to the worker and the starts of the timer, in a trace.\<close>

fun frames :: "effect list \<Rightarrow> frame list" where
  "frames [] = []"
| "frames (SendMessage f # es) = f # frames es"
| "frames (e # es) = frames es"

fun timer_starts :: "effect list \<Rightarrow> nat" where
  "timer_starts [] = 0"
| "timer_starts (TimerStart n # es) = Suc (timer_starts es)"
| "timer_starts (e # es) = timer_starts es"


fun boxes :: "effect list \<Rightarrow> box list" where
  "boxes [] = []"
| "boxes (MessageBox b # es) = b # boxes es"
| "boxes (e # es) = boxes es"

text \<open>
  The guard of line 332 over a trace: from a state whose flag is \<open>b\<close> to one whose flag is
  \<open>b'\<close>, no start of the timer when the flag was set and the flag still set; at most one
  start otherwise, and the flag set exactly when there was one.
\<close>

definition guarded :: "bool \<Rightarrow> effect list \<Rightarrow> bool \<Rightarrow> bool" where
  "guarded b es b' =
     (if b then timer_starts es = 0 \<and> b'
      else timer_starts es \<le> 1 \<and> b' = (timer_starts es = 1))"

text \<open>
  A roster entry for the local player: one that reads without an exception and whose
  \<^verbatim>\<open>user_id\<close> equals the local id. The entries of the roster an event carries, none when
  the event is not an \<^verbatim>\<open>InitialPlayers\<close> message whose payload the loop runs over.
\<close>

definition is_local_entry :: "(string \<Rightarrow> pyfloat option) \<Rightarrow> int \<Rightarrow> json \<Rightarrow> bool" where
  "is_local_entry parse local_id player_data =
     (case read_player parse player_data of
        Inr (Some (uid, x, y, z)) \<Rightarrow> eq_int uid local_id
      | other \<Rightarrow> False)"

fun roster_of :: "json \<Rightarrow> json list" where
  "roster_of data =
     (case get data ''type'' of
        Inl e \<Rightarrow> []
      | Inr msg_type \<Rightarrow>
          (case get data ''payload'' of
             Inl e \<Rightarrow> []
           | Inr payload \<Rightarrow>
               if msg_type = JStr ''InitialPlayers'' \<and> truthy payload then
                 (case py_iter payload of Inl e \<Rightarrow> [] | Inr items \<Rightarrow> items)
               else []))"

fun roster_items :: "ui_event \<Rightarrow> json list" where
  "roster_items (MessageEvent (Loaded data)) = roster_of data"
| "roster_items other = []"



text \<open>The events other than the two that report a lost connection.\<close>

fun stays_connected :: "ui_event \<Rightarrow> bool" where
  "stays_connected ClosedEvent = False"
| "stays_connected (ErrorEvent e) = False"
| "stays_connected other = True"

text \<open>Inputs the properties are tried on.\<close>

definition at_x :: "real \<Rightarrow> game" where
  "at_x r = (GameWindow_init 1)\<lparr>player_x := Fin r\<rparr>"

definition roster_message :: json where
  "roster_message =
     JObj [(''type'', JStr ''InitialPlayers''),
           (''payload'', JArr [JObj [(''user_id'', JInt 1), (''x'', JInt 2), (''y'', JInt 3)]])]"

definition nan_z_message :: json where
  "nan_z_message =
     JObj [(''type'', JStr ''PlayerPosition''),
           (''payload'', JObj [(''user_id'', JInt 1), (''x'', JInt 0), (''y'', JInt 0),
                               (''z'', JFloat NaN)])]"

definition disconnect_message :: "json \<Rightarrow> json" where
  "disconnect_message uid =
     JObj [(''type'', JStr ''PlayerDisconnected''), (''payload'', JObj [(''user_id'', uid)])]"





definition broken_roster :: json where
  "broken_roster =
     JObj [(''type'', JStr ''InitialPlayers''),
           (''payload'',
            JArr [JObj [(''user_id'', JInt 1), (''x'', JInt 2), (''y'', JInt 3)],
                  JObj [(''user_id'', JInt 8)],
                  JObj [(''user_id'', JInt 7), (''x'', JInt 1), (''y'', JInt 1)]])]"

definition unknown_message :: json where
  "unknown_message = JObj [(''type'', JStr ''Ping''), (''payload'', JNull)]"

definition position_message :: "json \<Rightarrow> json \<Rightarrow> json \<Rightarrow> json" where
  "position_message uid x y =
     JObj [(''type'', JStr ''PlayerPosition''),
           (''payload'', JObj [(''user_id'', uid), (''x'', x), (''y'', y)])]"

definition roster_close_roster :: "ui_event list" where
  "roster_close_roster =
     [MessageEvent (Loaded roster_message), ClosedEvent, MessageEvent (Loaded roster_message)]"

definition roster_twice :: "ui_event list" where
  "roster_twice =
     [MessageEvent (Loaded roster_message), KeyEvent Key_D, TimerTimeout, OpenedEvent,
      MessageEvent (Loaded roster_message)]"


definition local_entry :: json where
  "local_entry = JObj [(''user_id'', JInt 1), (''x'', JInt 2), (''y'', JInt 3)]"

definition nameless_entry :: json where
  "nameless_entry = JObj [(''user_id'', JInt 8)]"

definition other_entry :: json where
  "other_entry = JObj [(''user_id'', JInt 7), (''x'', JInt 1), (''y'', JInt 1)]"

definition late_roster :: json where
  "late_roster =
     JObj [(''type'', JStr ''InitialPlayers''),
           (''payload'', JArr ([other_entry] @ local_entry # [nameless_entry]))]"

definition started_window :: game where
  "started_window =
     fst (websocket_on_message Map.empty (GameWindow_init 1) (Loaded roster_message))"







section \<open>Floats\<close>

lemma flt_ne_iff: "b \<noteq> NaN \<Longrightarrow> flt_ne a b = (a \<noteq> b)"
  by (cases a; cases b) (auto simp: flt_ne_def)

lemma flt_ne_NaN: "flt_ne a NaN"
  by (cases a) (auto simp: flt_ne_def)

lemma clamp_Fin:
  assumes "0 \<le> h"
  shows "\<exists>r. py_max (Fin 0) (py_min a (Fin h)) = Fin r \<and> 0 \<le> r \<and> r \<le> h \<and>
             (\<forall>q. a = Fin q \<longrightarrow> r = max 0 (min q h))"
  using assms by (cases a) (auto simp: py_max_def py_min_def)

lemma clamp_le:
  assumes "0 \<le> h"
  shows "flt_le (Fin 0) (py_max (Fin 0) (py_min a (Fin h)))"
    and "flt_le (py_max (Fin 0) (py_min a (Fin h))) (Fin h)"
  using assms by (cases a; auto simp: py_max_def py_min_def flt_le_def)+

section \<open>Sending the position\<close>

lemma send_current_position_fields:
  "user_id (fst (send_current_position g)) = user_id g"
  "player_x (fst (send_current_position g)) = player_x g"
  "player_y (fst (send_current_position g)) = player_y g"
  "player_z (fst (send_current_position g)) = player_z g"
  "other_players (fst (send_current_position g)) = other_players g"
  "my_player_item (fst (send_current_position g)) = my_player_item g"
  "position_label (fst (send_current_position g)) = position_label g"
  "position_timer_started (fst (send_current_position g)) = position_timer_started g"
  by (simp_all add: send_current_position_def)

lemma send_changed:
  assumes "flt_ne (last_sent_x g) (player_x g) \<or> flt_ne (last_sent_y g) (player_y g) \<or>
           flt_ne (last_sent_z g) (player_z g)"
  shows "send_current_position g =
     (g\<lparr>last_sent_x := player_x g, last_sent_y := player_y g, last_sent_z := player_z g\<rparr>,
      [SendMessage (PlayerPosition (user_id g) (player_x g) (player_y g) (player_z g))])"
  using assms by (simp add: send_current_position_def)

lemma send_unchanged:
  assumes "nan_free g" and "last_sent g = position g"
  shows "send_current_position g = (g, [])"
  using assms
  by (simp add: send_current_position_def nan_free_def last_sent_def position_def flt_ne_iff)

lemmas handler_defs =
  websocket_on_message_def handle_data_def get_def on_initial_players_def on_player_position_def
  on_player_disconnected_def roster_entry_def adopt_initial_position_def read_player_def
  GameWindow_init_def
  send_current_position_def flt_ne_def update_player_visual_def set_position_label_def
  float_limit_def remove_player_visual_def trunc_def

text \<open>
  C4, as amended. Two consecutive calls of \<^verbatim>\<open>send_current_position\<close> with the local
  position unchanged between them, no coordinate of it NaN, and different from the last
  sent position before the first call, submit exactly one \<^verbatim>\<open>PlayerPosition\<close> frame:
  the first call submits the position and stores it as last sent, the second submits
  nothing and changes nothing.
\<close>

theorem send_twice_submits_once:
  assumes "nan_free g" and "last_sent g \<noteq> position g"
  shows "snd (send_current_position g) =
           [SendMessage (PlayerPosition (user_id g) (player_x g) (player_y g) (player_z g))] \<and>
         last_sent (fst (send_current_position g)) = position g \<and>
         position (fst (send_current_position g)) = position g \<and>
         send_current_position (fst (send_current_position g)) = (fst (send_current_position g), [])"
proof -
  have "flt_ne (last_sent_x g) (player_x g) \<or> flt_ne (last_sent_y g) (player_y g) \<or>
        flt_ne (last_sent_z g) (player_z g)"
    using assms by (auto simp: nan_free_def last_sent_def position_def flt_ne_iff)
  note s = send_changed [OF this]
  have "send_current_position (fst (send_current_position g)) = (fst (send_current_position g), [])"
    by (rule send_unchanged) (use assms s in \<open>simp_all add: nan_free_def last_sent_def position_def\<close>)
  then show ?thesis using s by (simp add: last_sent_def position_def)
qed

text \<open>The amended C4 on a fresh window, whose position is (0, 0, 0) and last sent (-1, -1, -1).\<close>

theorem send_twice_submits_once_witness:
  "nan_free (GameWindow_init 1) \<and> last_sent (GameWindow_init 1) \<noteq> position (GameWindow_init 1) \<and>
   snd (send_current_position (GameWindow_init 1)) =
     [SendMessage (PlayerPosition 1 (Fin 0) (Fin 0) (Fin 0))] \<and>
   snd (send_current_position (fst (send_current_position (GameWindow_init 1)))) = []"
proof -
  have n: "nan_free (GameWindow_init 1)"
    by (simp add: nan_free_def GameWindow_init_def)
  have d: "last_sent (GameWindow_init 1) \<noteq> position (GameWindow_init 1)"
    by (simp add: last_sent_def position_def GameWindow_init_def)
  show ?thesis
    using n d send_twice_submits_once [OF n d] by (simp add: GameWindow_init_def)
qed

text \<open>
  C4 as stated fails when a coordinate is NaN, which compares unequal to itself. The
  server's message \<open>nan_z_message\<close> puts NaN into \<^verbatim>\<open>player_z\<close> of the local player;
  the position then stays as it is, and both of two consecutive calls submit a frame.
\<close>

theorem send_twice_submits_twice_on_nan:
  "position (fst (websocket_on_message Map.empty (GameWindow_init 1) (Loaded nan_z_message))) =
     (Fin 0, Fin 0, NaN) \<and>
   snd (send_current_position
         (fst (websocket_on_message Map.empty (GameWindow_init 1) (Loaded nan_z_message)))) =
     [SendMessage (PlayerPosition 1 (Fin 0) (Fin 0) NaN)] \<and>
   position (fst (send_current_position
         (fst (websocket_on_message Map.empty (GameWindow_init 1) (Loaded nan_z_message))))) =
     (Fin 0, Fin 0, NaN) \<and>
   snd (send_current_position (fst (send_current_position
         (fst (websocket_on_message Map.empty (GameWindow_init 1) (Loaded nan_z_message)))))) =
     [SendMessage (PlayerPosition 1 (Fin 0) (Fin 0) NaN)]"
  by (simp add: handler_defs nan_z_message_def position_def)

section \<open>Key presses\<close>

lemma set_position_label_Fin:
  "player_x g = Fin a \<Longrightarrow> player_y g = Fin b \<Longrightarrow>
   set_position_label g = (g\<lparr>position_label := (trunc a, trunc b)\<rparr>, None)"
  by (simp add: set_position_label_def)

lemma keyPressEvent_moved:
  assumes "key_target g k = (req_x, req_y, True)"
  shows "\<exists>l. keyPressEvent g k =
     (send_current_position
        (g\<lparr>player_x := py_max (Fin 0) (py_min req_x (Fin 39)),
           player_y := py_max (Fin 0) (py_min req_y (Fin 19)),
           my_player_item := Some (py_max (Fin 0) (py_min req_x (Fin 39)),
                                   py_max (Fin 0) (py_min req_y (Fin 19))),
           position_label := l\<rparr>), None)"
proof -
  obtain a where a: "py_max (Fin 0) (py_min req_x (Fin 39)) = Fin a"
    using clamp_Fin [of 39 req_x] by auto
  obtain b where b: "py_max (Fin 0) (py_min req_y (Fin 19)) = Fin b"
    using clamp_Fin [of 19 req_y] by auto
  have "keyPressEvent g k =
     (send_current_position
        (g\<lparr>player_x := Fin a, player_y := Fin b,
           my_player_item := Some (Fin a, Fin b),
           position_label := (trunc a, trunc b)\<rparr>), None)"
    using assms a b
    by (simp add: keyPressEvent_def update_player_visual_def set_position_label_Fin
        MAP_WIDTH_TILES_def MAP_HEIGHT_TILES_def)
  then show ?thesis unfolding a b by blast
qed

lemma keyPressEvent_other: "keyPressEvent g Key_other = ((g, []), None)"
  by (simp add: keyPressEvent_def)

lemma keyPressEvent_no_error: "snd (keyPressEvent g k) = None"
proof (cases "snd (snd (key_target g k))")
  case True
  then obtain rx ry where "key_target g k = (rx, ry, True)"
    by (cases "key_target g k") auto
  from keyPressEvent_moved [OF this] show ?thesis by auto
next
  case False
  then have "k = Key_other" by (cases k) auto
  then show ?thesis by (simp add: keyPressEvent_other)
qed

lemma keyPressEvent_stored:
  assumes "key_target g k = (req_x, req_y, True)"
  shows "player_x (fst (fst (keyPressEvent g k))) = py_max (Fin 0) (py_min req_x (Fin 39))"
    and "player_y (fst (fst (keyPressEvent g k))) = py_max (Fin 0) (py_min req_y (Fin 19))"
    and "player_z (fst (fst (keyPressEvent g k))) = player_z g"
proof -
  from keyPressEvent_moved [OF assms] obtain l where
    "keyPressEvent g k =
     (send_current_position
        (g\<lparr>player_x := py_max (Fin 0) (py_min req_x (Fin 39)),
           player_y := py_max (Fin 0) (py_min req_y (Fin 19)),
           my_player_item := Some (py_max (Fin 0) (py_min req_x (Fin 39)),
                                   py_max (Fin 0) (py_min req_y (Fin 19))),
           position_label := l\<rparr>), None)" by blast
  then show "player_x (fst (fst (keyPressEvent g k))) = py_max (Fin 0) (py_min req_x (Fin 39))"
    and "player_y (fst (fst (keyPressEvent g k))) = py_max (Fin 0) (py_min req_y (Fin 19))"
    and "player_z (fst (fst (keyPressEvent g k))) = player_z g"
    by (simp_all add: send_current_position_fields)
qed

text \<open>
  C7. A key that moves stores the requested x clamped to [0, width - 1] and the requested
  y clamped to [0, height - 1], and leaves z as it is, whatever it is: when the request
  is a number \<open>q\<close> the stored x is \<open>max 0 (min q 39)\<close>, so a request of -5 stores 0 and a
  request of 45 stores 39.
\<close>

theorem keyPressEvent_clamps:
  assumes "key_target g k = (req_x, req_y, True)"
  shows "flt_le (Fin 0) (player_x (fst (fst (keyPressEvent g k)))) \<and>
         flt_le (player_x (fst (fst (keyPressEvent g k)))) (Fin (MAP_WIDTH_TILES - 1)) \<and>
         flt_le (Fin 0) (player_y (fst (fst (keyPressEvent g k)))) \<and>
         flt_le (player_y (fst (fst (keyPressEvent g k)))) (Fin (MAP_HEIGHT_TILES - 1)) \<and>
         player_z (fst (fst (keyPressEvent g k))) = player_z g \<and>
         (\<forall>q. req_x = Fin q \<longrightarrow>
            player_x (fst (fst (keyPressEvent g k))) = Fin (max 0 (min q (MAP_WIDTH_TILES - 1)))) \<and>
         (\<forall>q. req_y = Fin q \<longrightarrow>
            player_y (fst (fst (keyPressEvent g k))) = Fin (max 0 (min q (MAP_HEIGHT_TILES - 1))))"
proof -
  have cx: "\<forall>q. req_x = Fin q \<longrightarrow> py_max (Fin 0) (py_min req_x (Fin 39)) = Fin (max 0 (min q 39))"
    using clamp_Fin [of 39 req_x] by auto
  have cy: "\<forall>q. req_y = Fin q \<longrightarrow> py_max (Fin 0) (py_min req_y (Fin 19)) = Fin (max 0 (min q 19))"
    using clamp_Fin [of 19 req_y] by auto
  show ?thesis
    unfolding keyPressEvent_stored [OF assms] MAP_WIDTH_TILES_def MAP_HEIGHT_TILES_def
    using clamp_le [of 39 req_x] clamp_le [of 19 req_y] cx cy by simp
qed

text \<open>C7 at x = -4 with the key A, which requests -5, and at x = 44 with D, which requests 45.\<close>

theorem keyPressEvent_clamps_witness:
  "key_target (at_x (- 4)) Key_A = (Fin (- 5), Fin 0, True) \<and>
   player_x (fst (fst (keyPressEvent (at_x (- 4)) Key_A))) = Fin 0 \<and>
   key_target (at_x 44) Key_D = (Fin 45, Fin 0, True) \<and>
   player_x (fst (fst (keyPressEvent (at_x 44) Key_D))) = Fin 39"
proof -
  have a: "key_target (at_x (- 4)) Key_A = (Fin (- 5), Fin 0, True)"
    by (simp add: at_x_def GameWindow_init_def flt_sub_def)
  have d: "key_target (at_x 44) Key_D = (Fin 45, Fin 0, True)"
    by (simp add: at_x_def GameWindow_init_def)
  show ?thesis
    using a d keyPressEvent_clamps [OF a] keyPressEvent_clamps [OF d]
    by (simp add: MAP_WIDTH_TILES_def)
qed

text \<open>
  C10. When the local position has x in [0, 39] and y in [0, 19] before a key press, it
  has so after it, and z is unchanged; the handler raises nothing; a key that is none of
  W, A, S, D leaves the whole state unchanged and submits nothing.
\<close>

theorem keyPressEvent_keeps_grid:
  assumes "flt_le (Fin 0) (player_x g)" and "flt_le (player_x g) (Fin 39)"
    and "flt_le (Fin 0) (player_y g)" and "flt_le (player_y g) (Fin 19)"
  shows "flt_le (Fin 0) (player_x (fst (fst (keyPressEvent g k)))) \<and>
         flt_le (player_x (fst (fst (keyPressEvent g k)))) (Fin 39) \<and>
         flt_le (Fin 0) (player_y (fst (fst (keyPressEvent g k)))) \<and>
         flt_le (player_y (fst (fst (keyPressEvent g k)))) (Fin 19) \<and>
         player_z (fst (fst (keyPressEvent g k))) = player_z g \<and>
         snd (keyPressEvent g k) = None \<and>
         (k = Key_other \<longrightarrow> keyPressEvent g k = ((g, []), None))"
proof (cases "k = Key_other")
  case True
  then show ?thesis using assms by (simp add: keyPressEvent_other)
next
  case False
  then obtain rx ry where t: "key_target g k = (rx, ry, True)"
    by (cases k) auto
  show ?thesis
    unfolding keyPressEvent_stored [OF t]
    using False clamp_le [of 39 rx] clamp_le [of 19 ry]
    by (simp add: keyPressEvent_no_error)
qed

text \<open>C10 on the fresh window at (0, 0): W asks for y = -1 and the position stays (0, 0).\<close>

theorem keyPressEvent_keeps_grid_witness:
  "flt_le (Fin 0) (player_x (GameWindow_init 1)) \<and> flt_le (player_x (GameWindow_init 1)) (Fin 39) \<and>
   flt_le (Fin 0) (player_y (GameWindow_init 1)) \<and> flt_le (player_y (GameWindow_init 1)) (Fin 19) \<and>
   flt_le (Fin 0) (player_y (fst (fst (keyPressEvent (GameWindow_init 1) Key_W)))) \<and>
   flt_le (player_x (fst (fst (keyPressEvent (GameWindow_init 1) Key_W)))) (Fin 39) \<and>
   keyPressEvent (GameWindow_init 1) Key_other = ((GameWindow_init 1, []), None)"
proof -
  have h: "flt_le (Fin 0) (player_x (GameWindow_init 1))"
    "flt_le (player_x (GameWindow_init 1)) (Fin 39)"
    "flt_le (Fin 0) (player_y (GameWindow_init 1))"
    "flt_le (player_y (GameWindow_init 1)) (Fin 19)"
    by (simp_all add: GameWindow_init_def flt_le_def)
  show ?thesis
    using h keyPressEvent_keeps_grid [OF h, of Key_W] keyPressEvent_keeps_grid [OF h, of Key_other]
    by simp
qed

section \<open>Inbound messages\<close>

text \<open>
  C5. On a fresh window of user 1, the message
  \<^verbatim>\<open>{"type":"InitialPlayers","payload":[{"user_id":1,"x":2,"y":3}]}\<close> sets the local
  position to (2, 3, 0) and the timer flag to true, starts the timer, and submits exactly one
  frame, \<^verbatim>\<open>PlayerPosition\<close> of user 1 at (2, 3, 0), which becomes the last sent position.
\<close>

theorem initial_players_scenario:
  "websocket_on_message parse (GameWindow_init 1) (Loaded roster_message) =
     ((GameWindow_init 1)
        \<lparr>player_x := Fin 2, player_y := Fin 3, player_z := Fin 0,
         my_player_item := Some (Fin 2, Fin 3),
         position_label := (2, 3),
         position_timer_started := True,
         last_sent_x := Fin 2, last_sent_y := Fin 3, last_sent_z := Fin 0\<rparr>,
      [Print ReceivedInitialPlayers, Print SetInitialPosition, TimerStart 100,
       Print TimerStartedLog, SendMessage (PlayerPosition 1 (Fin 2) (Fin 3) (Fin 0))])"
  by (simp add: handler_defs roster_message_def)

lemma get_found_truthy: "get d k = Inr v \<Longrightarrow> v \<noteq> JNull \<Longrightarrow> truthy d"
  by (cases d) (auto simp: get_def split: option.splits)

lemma eq_int_not_null: "eq_int uid n \<Longrightarrow> uid \<noteq> JNull"
  by auto

text \<open>
  C6. A \<^verbatim>\<open>PlayerDisconnected\<close> message whose \<^verbatim>\<open>user_id\<close> equals the local id changes
  nothing: the state after it is the state before it (the other players, the local item,
  the local position, the timer flag), and the handler only prints.
\<close>

theorem disconnect_of_self_is_noop:
  assumes "get data ''type'' = Inr (JStr ''PlayerDisconnected'')"
    and "get data ''payload'' = Inr payload"
    and "get payload ''user_id'' = Inr uid"
    and "eq_int uid (user_id g)"
  shows "websocket_on_message parse g (Loaded data) =
           (g, [Print (ReceivedDisconnected uid), Print (IgnoringSelf uid)])"
proof -
  have "uid \<noteq> JNull" using assms(4) by (rule eq_int_not_null)
  moreover from this have "truthy payload" using assms(3) get_found_truthy by blast
  ultimately show ?thesis
    using assms
    by (simp add: websocket_on_message_def handle_data_def on_player_disconnected_def
        remove_player_visual_def)
qed

text \<open>C6 on a fresh window of user 1 and \<^verbatim>\<open>{"type":"PlayerDisconnected","payload":{"user_id":1}}\<close>.\<close>

theorem disconnect_of_self_is_noop_witness:
  "get (disconnect_message (JInt 1)) ''type'' = Inr (JStr ''PlayerDisconnected'') \<and>
   get (disconnect_message (JInt 1)) ''payload'' = Inr (JObj [(''user_id'', JInt 1)]) \<and>
   get (JObj [(''user_id'', JInt 1)]) ''user_id'' = Inr (JInt 1) \<and>
   eq_int (JInt 1) (user_id (GameWindow_init 1)) \<and>
   websocket_on_message Map.empty (GameWindow_init 1) (Loaded (disconnect_message (JInt 1))) =
     (GameWindow_init 1, [Print (ReceivedDisconnected (JInt 1)), Print (IgnoringSelf (JInt 1))])"
proof -
  have h: "get (disconnect_message (JInt 1)) ''type'' = Inr (JStr ''PlayerDisconnected'')"
    "get (disconnect_message (JInt 1)) ''payload'' = Inr (JObj [(''user_id'', JInt 1)])"
    "get (JObj [(''user_id'', JInt 1)]) ''user_id'' = Inr (JInt 1)"
    "eq_int (JInt 1) (user_id (GameWindow_init 1))"
    by (simp_all add: disconnect_message_def get_def GameWindow_init_def)
  show ?thesis
    using h disconnect_of_self_is_noop [OF h, of Map.empty] by simp
qed

section \<open>The loop over a roster\<close>

lemma adopt_initial_position_user_id:
  "user_id (fst (adopt_initial_position g x y z)) = user_id g"
  by (simp add: adopt_initial_position_def Let_def split_beta send_current_position_fields)

lemma roster_loop_append:
  "roster_loop parse g (pre @ rest) =
     (case roster_loop parse g pre of
        ((g1, es1), Some e) \<Rightarrow> ((g1, es1), Some e)
      | ((g1, es1), None) \<Rightarrow>
          (case roster_loop parse g1 rest of ((g2, es2), r) \<Rightarrow> ((g2, es1 @ es2), r)))"
proof (induction pre arbitrary: g)
  case Nil
  then show ?case by (simp add: split_beta)
next
  case (Cons pd pre)
  show ?case
    by (simp add: Cons.IH split_beta split: option.splits)
qed

section \<open>The worker's loop\<close>

















section \<open>The timer flag over a session\<close>

lemma timer_starts_append: "timer_starts (a @ b) = timer_starts a + timer_starts b"
  by (induction a rule: timer_starts.induct) simp_all


lemma boxes_append: "boxes (a @ b) = boxes a @ boxes b"
  by (induction a rule: boxes.induct) simp_all

lemma guarded_trans:
  "guarded b es1 b1 \<Longrightarrow> guarded b1 es2 b2 \<Longrightarrow> guarded b (es1 @ es2) b2"
  by (auto simp: guarded_def timer_starts_append split: if_splits)

lemma guarded_idle: "timer_starts es = 0 \<Longrightarrow> guarded b es b"
  by (simp add: guarded_def)

lemma set_position_label_fields:
  "user_id (fst (set_position_label g)) = user_id g"
  "player_x (fst (set_position_label g)) = player_x g"
  "player_y (fst (set_position_label g)) = player_y g"
  "player_z (fst (set_position_label g)) = player_z g"
  "other_players (fst (set_position_label g)) = other_players g"
  "my_player_item (fst (set_position_label g)) = my_player_item g"
  "position_timer_started (fst (set_position_label g)) = position_timer_started g"
  "last_sent_x (fst (set_position_label g)) = last_sent_x g"
  "last_sent_y (fst (set_position_label g)) = last_sent_y g"
  "last_sent_z (fst (set_position_label g)) = last_sent_z g"
  by (simp_all add: set_position_label_def split: sum.splits)

lemma update_player_visual_fields:
  "user_id (fst (update_player_visual g uid x y z)) = user_id g"
  "player_x (fst (update_player_visual g uid x y z)) = player_x g"
  "player_y (fst (update_player_visual g uid x y z)) = player_y g"
  "player_z (fst (update_player_visual g uid x y z)) = player_z g"
  "position_timer_started (fst (update_player_visual g uid x y z)) = position_timer_started g"
  "last_sent_x (fst (update_player_visual g uid x y z)) = last_sent_x g"
  "last_sent_y (fst (update_player_visual g uid x y z)) = last_sent_y g"
  "last_sent_z (fst (update_player_visual g uid x y z)) = last_sent_z g"
  by (simp_all add: update_player_visual_def set_position_label_fields)

lemma send_current_position_starts: "timer_starts (snd (send_current_position g)) = 0"
  by (simp add: send_current_position_def)

lemma send_current_position_started:
  "position_timer_started (fst (send_current_position g)) = position_timer_started g"
  by (simp add: send_current_position_def)

lemma roster_entry_guarded:
  "guarded (position_timer_started g) (snd (fst (roster_entry parse g pd)))
     (position_timer_started (fst (fst (roster_entry parse g pd))))"
proof (cases "read_player parse pd")
  case (Inl e)
  then show ?thesis by (simp add: roster_entry_def guarded_def)
next
  case (Inr p)
  show ?thesis
  proof (cases p)
    case None
    with Inr show ?thesis by (simp add: roster_entry_def guarded_def)
  next
    case (Some q)
    obtain uid x y z where q: "q = (uid, x, y, z)" by (cases q)
    show ?thesis
      using Inr Some q
      by (simp add: roster_entry_def adopt_initial_position_def guarded_def split_beta Let_def
          update_player_visual_fields
          send_current_position_starts send_current_position_started timer_starts_append)
  qed
qed

lemma roster_loop_guarded:
  "guarded (position_timer_started g) (snd (fst (roster_loop parse g items)))
     (position_timer_started (fst (fst (roster_loop parse g items))))"
proof (induction items arbitrary: g)
  case Nil
  then show ?case by (simp add: guarded_def)
next
  case (Cons pd items)
  obtain g1 es1 r1 where e: "roster_entry parse g pd = ((g1, es1), r1)"
    by (metis prod.collapse)
  have g1: "guarded (position_timer_started g) es1 (position_timer_started g1)"
    using roster_entry_guarded [of g parse pd] e by simp
  show ?case
  proof (cases r1)
    case (Some err)
    with e g1 show ?thesis by simp
  next
    case None
    obtain g2 es2 r2 where l: "roster_loop parse g1 items = ((g2, es2), r2)"
      by (metis prod.collapse)
    have "guarded (position_timer_started g1) es2 (position_timer_started g2)"
      using Cons.IH [of g1] l by simp
    from guarded_trans [OF g1 this] show ?thesis using e None l by simp
  qed
qed


lemma remove_player_visual_quiet:
  "timer_starts (snd (fst (remove_player_visual g uid))) = 0"
  "position_timer_started (fst (fst (remove_player_visual g uid))) = position_timer_started g"
  by (simp_all add: remove_player_visual_def split: option.splits)

lemma on_player_position_quiet:
  "timer_starts (snd (fst (on_player_position parse g payload))) = 0"
  "position_timer_started (fst (fst (on_player_position parse g payload))) =
     position_timer_started g"
  by (simp_all add: on_player_position_def split_beta Let_def update_player_visual_fields
      split: sum.splits option.splits)

lemma on_player_disconnected_quiet:
  "timer_starts (snd (fst (on_player_disconnected g payload))) = 0"
  "position_timer_started (fst (fst (on_player_disconnected g payload))) =
     position_timer_started g"
  by (simp_all add: on_player_disconnected_def split_beta remove_player_visual_quiet
      split: sum.splits)

lemma on_initial_players_guarded:
  "guarded (position_timer_started g) (snd (fst (on_initial_players parse g payload)))
     (position_timer_started (fst (fst (on_initial_players parse g payload))))"
proof (cases "truthy payload")
  case False
  then show ?thesis by (simp add: on_initial_players_def guarded_def)
next
  case True
  show ?thesis
  proof (cases "py_iter payload")
    case (Inl e)
    with True show ?thesis by (simp add: on_initial_players_def guarded_def)
  next
    case (Inr items)
    have "guarded (position_timer_started g) ([Print ReceivedInitialPlayers] @ snd (fst (roster_loop parse g items)))
            (position_timer_started (fst (fst (roster_loop parse g items))))"
      by (rule guarded_trans [OF guarded_idle roster_loop_guarded]) simp
    with True Inr show ?thesis by (simp add: on_initial_players_def split_beta)
  qed
qed

lemma handle_data_guarded:
  "guarded (position_timer_started g) (snd (fst (handle_data parse g data)))
     (position_timer_started (fst (fst (handle_data parse g data))))"
  by (simp add: handle_data_def on_initial_players_guarded on_player_position_quiet
      on_player_disconnected_quiet guarded_idle split: sum.splits)

lemma websocket_on_message_guarded:
  "guarded (position_timer_started g) (snd (websocket_on_message parse g m))
     (position_timer_started (fst (websocket_on_message parse g m)))"
proof (cases m)
  case JSONDecodeError
  then show ?thesis by (simp add: websocket_on_message_def guarded_def)
next
  case (Loaded data)
  obtain g1 es r where h: "handle_data parse g data = ((g1, es), r)"
    by (metis prod.collapse)
  have a: "guarded (position_timer_started g) es (position_timer_started g1)"
    using handle_data_guarded [of g parse data] h by simp
  show ?thesis
  proof (cases r)
    case None
    with Loaded h a show ?thesis by (simp add: websocket_on_message_def)
  next
    case (Some e)
    have "guarded (position_timer_started g)
            (es @ [Print (HandlingErrorLog e), MessageBox (HandlingErrorBox e)])
            (position_timer_started g1)"
      by (rule guarded_trans [OF a guarded_idle]) simp
    with Loaded h Some show ?thesis by (simp add: websocket_on_message_def)
  qed
qed


lemma keyPressEvent_quiet:
  "timer_starts (snd (fst (keyPressEvent g k))) = 0"
  "position_timer_started (fst (fst (keyPressEvent g k))) = position_timer_started g"
proof -
  have "timer_starts (snd (fst (keyPressEvent g k))) = 0 \<and>
        position_timer_started (fst (fst (keyPressEvent g k))) = position_timer_started g"
  proof (cases "k = Key_other")
    case True
    then show ?thesis by (simp add: keyPressEvent_other)
  next
    case False
    then obtain rx ry where "key_target g k = (rx, ry, True)"
      by (cases k) auto
    from keyPressEvent_moved [OF this] obtain l where
      "keyPressEvent g k =
       (send_current_position
          (g\<lparr>player_x := py_max (Fin 0) (py_min rx (Fin 39)),
             player_y := py_max (Fin 0) (py_min ry (Fin 19)),
             my_player_item := Some (py_max (Fin 0) (py_min rx (Fin 39)),
                                     py_max (Fin 0) (py_min ry (Fin 19))),
             position_label := l\<rparr>), None)" by blast
    then show ?thesis
      by (simp add: send_current_position_starts send_current_position_started)
  qed
  then show "timer_starts (snd (fst (keyPressEvent g k))) = 0"
    and "position_timer_started (fst (fst (keyPressEvent g k))) = position_timer_started g"
    by simp_all
qed

lemma dispatch_guarded:
  assumes "stays_connected ev"
  shows "guarded (position_timer_started g) (snd (dispatch parse g ev))
           (position_timer_started (fst (dispatch parse g ev)))"
proof (cases ev)
  case (MessageEvent m)
  then show ?thesis by (simp add: websocket_on_message_guarded)
next
  case (ErrorEvent e)
  with assms show ?thesis by simp
next
  case ClosedEvent
  with assms show ?thesis by simp
next
  case OpenedEvent
  then show ?thesis by (simp add: handle_websocket_open_def guarded_def)
next
  case (KeyEvent k)
  then show ?thesis by (simp add: keyPressEvent_quiet guarded_idle)
next
  case TimerTimeout
  then show ?thesis
    by (simp add: send_current_position_starts send_current_position_started guarded_idle)
qed

lemma run_events_guarded:
  assumes "list_all stays_connected evs"
  shows "guarded (position_timer_started g) (snd (run_events parse g evs))
           (position_timer_started (fst (run_events parse g evs)))"
  using assms
proof (induction evs arbitrary: g)
  case Nil
  then show ?case by (simp add: guarded_def)
next
  case (Cons ev evs)
  from Cons.prems have ev: "stays_connected ev" and evs: "list_all stays_connected evs"
    by simp_all
  have "guarded (position_timer_started g)
          (snd (dispatch parse g ev) @ snd (run_events parse (fst (dispatch parse g ev)) evs))
          (position_timer_started (fst (run_events parse (fst (dispatch parse g ev)) evs)))"
    by (rule guarded_trans [OF dispatch_guarded [OF ev] Cons.IH [OF evs]])
  then show ?case by (simp add: split_beta)
qed

lemma roster_entry_user_id:
  "user_id (fst (fst (roster_entry parse g pd))) = user_id g"
  by (simp add: roster_entry_def split_beta update_player_visual_fields
      adopt_initial_position_user_id split: sum.splits option.splits)

lemma roster_loop_user_id:
  "user_id (fst (fst (roster_loop parse g items))) = user_id g"
proof (induction items arbitrary: g)
  case Nil
  then show ?case by simp
next
  case (Cons pd items)
  show ?case
    using Cons.IH [of "fst (fst (roster_entry parse g pd))"] roster_entry_user_id [of parse g pd]
    by (simp add: split_beta split: option.splits)
qed

lemma adopt_initial_position_starts:
  "timer_starts (snd (adopt_initial_position g x y z)) = (if position_timer_started g then 0 else 1)"
  by (simp add: adopt_initial_position_def Let_def split_beta timer_starts_append
      send_current_position_starts)

lemma roster_entry_starts:
  "timer_starts (snd (fst (roster_entry parse g pd))) =
     (if is_local_entry parse (user_id g) pd \<and> \<not> position_timer_started g then 1 else 0)"
  by (simp add: roster_entry_def is_local_entry_def split_beta adopt_initial_position_starts
      split: sum.splits option.splits)

lemma roster_loop_start_local:
  "timer_starts (snd (fst (roster_loop parse g items))) \<noteq> 0 \<Longrightarrow>
   list_ex (is_local_entry parse (user_id g)) items"
proof (induction items arbitrary: g)
  case Nil
  then show ?case by simp
next
  case (Cons pd items)
  let ?g1 = "fst (fst (roster_entry parse g pd))"
  show ?case
  proof (cases "is_local_entry parse (user_id g) pd")
    case True
    then show ?thesis by simp
  next
    case False
    then have z: "timer_starts (snd (fst (roster_entry parse g pd))) = 0"
      by (simp add: roster_entry_starts)
    have "timer_starts (snd (fst (roster_loop parse ?g1 items))) \<noteq> 0"
      using Cons.prems z by (simp add: split_beta timer_starts_append split: option.splits)
    from Cons.IH [OF this] show ?thesis
      by (simp add: roster_entry_user_id)
  qed
qed

lemma handle_data_start_local:
  assumes "timer_starts (snd (fst (handle_data parse g data))) \<noteq> 0"
  shows "list_ex (is_local_entry parse (user_id g)) (roster_of data)"
proof (cases "get data ''type''")
  case (Inl e)
  with assms show ?thesis by (simp add: handle_data_def)
next
  case (Inr msg_type)
  note t = this
  show ?thesis
  proof (cases "get data ''payload''")
    case (Inl e)
    with assms t show ?thesis by (simp add: handle_data_def)
  next
    case (Inr payload)
    have r: "msg_type = JStr ''InitialPlayers''"
      using assms t Inr
      by (auto simp: handle_data_def on_player_position_quiet on_player_disconnected_quiet
          split: if_splits)
    then have h: "handle_data parse g data = on_initial_players parse g payload"
      using t Inr by (simp add: handle_data_def)
    have tp: "truthy payload"
      using assms h by (auto simp: on_initial_players_def split: if_splits)
    show ?thesis
    proof (cases "py_iter payload")
      case (Inl e)
      with assms h tp show ?thesis by (simp add: on_initial_players_def)
    next
      case (Inr items)
      then have "timer_starts (snd (fst (roster_loop parse g items))) \<noteq> 0"
        using assms h tp by (simp add: on_initial_players_def split_beta)
      from roster_loop_start_local [OF this] show ?thesis
        using t \<open>get data ''payload'' = Inr payload\<close> r tp Inr by simp
    qed
  qed
qed

lemma websocket_on_message_starts:
  "timer_starts (snd (websocket_on_message parse g (Loaded data))) =
     timer_starts (snd (fst (handle_data parse g data)))"
  by (simp add: websocket_on_message_def split_beta timer_starts_append split: option.splits)

lemma handle_websocket_close_starts:
  "timer_starts (snd (handle_websocket_close g)) = 0"
  "timer_starts (snd (handle_websocket_error g e)) = 0"
  "\<not> position_timer_started (fst (handle_websocket_close g))"
  "\<not> position_timer_started (fst (handle_websocket_error g e))"
  "position_timer_started g \<Longrightarrow> TimerStop \<in> set (snd (handle_websocket_close g))"
  "position_timer_started g \<Longrightarrow> TimerStop \<in> set (snd (handle_websocket_error g e))"
  by (simp_all add: handle_websocket_close_def handle_websocket_error_def split_beta)

lemma dispatch_start_local:
  assumes "timer_starts (snd (dispatch parse g ev)) \<noteq> 0"
  shows "\<not> position_timer_started g \<and>
         list_ex (is_local_entry parse (user_id g)) (roster_items ev)"
proof -
  have a: "list_ex (is_local_entry parse (user_id g)) (roster_items ev)"
  proof (cases ev)
    case (MessageEvent m)
    show ?thesis
    proof (cases m)
      case JSONDecodeError
      with MessageEvent assms show ?thesis by (simp add: websocket_on_message_def)
    next
      case (Loaded data)
      with MessageEvent assms handle_data_start_local [of parse g data] show ?thesis
        by (simp add: websocket_on_message_starts)
    qed
  next
    case (ErrorEvent e)
    with assms show ?thesis by (simp add: handle_websocket_close_starts)
  next
    case ClosedEvent
    with assms show ?thesis by (simp add: handle_websocket_close_starts)
  next
    case OpenedEvent
    with assms show ?thesis by (simp add: handle_websocket_open_def)
  next
    case (KeyEvent k)
    with assms show ?thesis by (simp add: keyPressEvent_quiet)
  next
    case TimerTimeout
    with assms show ?thesis by (simp add: send_current_position_starts)
  qed
  have "stays_connected ev"
    using assms
    by (cases ev) (simp_all add: handle_websocket_close_starts)
  from dispatch_guarded [OF this, of g parse] assms have "\<not> position_timer_started g"
    by (auto simp: guarded_def)
  with a show ?thesis by simp
qed

lemma dispatch_drops:
  assumes "\<not> stays_connected ev"
  shows "\<not> position_timer_started (fst (dispatch parse g ev)) \<and>
         timer_starts (snd (dispatch parse g ev)) = 0 \<and>
         (position_timer_started g \<longrightarrow> TimerStop \<in> set (snd (dispatch parse g ev)))"
  using assms
  by (cases ev) (simp_all add: handle_websocket_close_starts)

lemma roster_loop_restart:
  assumes "\<not> position_timer_started g"
    and "snd (roster_loop parse g pre) = None"
    and "is_local_entry parse (user_id g) pd"
  shows "timer_starts (snd (fst (roster_loop parse g (pre @ pd # later)))) = 1 \<and>
         position_timer_started (fst (fst (roster_loop parse g (pre @ pd # later))))"
proof -
  let ?g1 = "fst (fst (roster_loop parse g pre))"
  let ?es1 = "snd (fst (roster_loop parse g pre))"
  let ?all = "roster_loop parse g (pre @ pd # later)"
  have u: "user_id ?g1 = user_id g" by (rule roster_loop_user_id)
  have g1: "guarded False ?es1 (position_timer_started ?g1)"
    using roster_loop_guarded [of g parse pre] assms(1) by simp
  have e: "timer_starts (snd (fst (roster_entry parse ?g1 pd))) =
             (if position_timer_started ?g1 then 0 else 1)"
    using assms(3) u by (simp add: roster_entry_starts)
  have "\<exists>tl. snd (fst ?all) = ?es1 @ snd (fst (roster_entry parse ?g1 pd)) @ tl"
    using assms(2) by (simp add: roster_loop_append split_beta split: option.splits)
  then obtain tl where tl: "snd (fst ?all) = ?es1 @ snd (fst (roster_entry parse ?g1 pd)) @ tl"
    by blast
  have ge: "timer_starts (snd (fst ?all)) \<ge> 1"
    using g1 e unfolding tl by (auto simp: guarded_def timer_starts_append)
  have "guarded False (snd (fst ?all)) (position_timer_started (fst (fst ?all)))"
    using roster_loop_guarded [of g parse "pre @ pd # later"] assms(1) by simp
  with ge show ?thesis by (auto simp: guarded_def)
qed


lemma roster_message_restart:
  assumes "\<not> position_timer_started g"
    and "get data ''type'' = Inr (JStr ''InitialPlayers'')"
    and "get data ''payload'' = Inr (JArr (pre @ pd # later))"
    and "snd (roster_loop parse g pre) = None"
    and "is_local_entry parse (user_id g) pd"
  shows "timer_starts (snd (websocket_on_message parse g (Loaded data))) = 1 \<and>
         position_timer_started (fst (websocket_on_message parse g (Loaded data)))"
proof -
  let ?l = "roster_loop parse g (pre @ pd # later)"
  have h: "handle_data parse g data = ((fst (fst ?l), Print ReceivedInitialPlayers # snd (fst ?l)), snd ?l)"
    using assms(2,3) by (simp add: handle_data_def on_initial_players_def split_beta)
  have s: "fst (websocket_on_message parse g (Loaded data)) = fst (fst ?l)"
    using h by (simp add: websocket_on_message_def split: option.splits)
  show ?thesis
    using roster_loop_restart [OF assms(1,4,5), of later] h
    unfolding s websocket_on_message_starts by simp
qed

text \<open>
  C2, as amended. The timer is started, and the flag goes from false to true, only where
  a roster entry with the local id is handled while the flag is false: an event that
  starts the timer finds the flag false and is an \<^verbatim>\<open>InitialPlayers\<close> message with such
  an entry, and an event that turns the flag on starts the timer once. Over any sequence
  of events with no closed and no error signal in it (messages of any kind, further
  rosters with the local id, key presses, timer ticks, the opened signal) the timer is
  started at most once; when the flag is already true it is not started at all and the
  flag stays true. The closed and the error signal reset the flag and, when it was set,
  stop the timer. After that, a roster whose loop reaches an entry with the local id, no
  entry before it raising, starts the timer again, once, and sets the flag.
\<close>

theorem timer_started_once_while_connected:
  "(timer_starts (snd (dispatch parse g ev)) \<noteq> 0 \<longrightarrow>
      \<not> position_timer_started g \<and>
      list_ex (is_local_entry parse (user_id g)) (roster_items ev)) \<and>
   (\<not> position_timer_started g \<and> position_timer_started (fst (dispatch parse g ev)) \<longrightarrow>
      timer_starts (snd (dispatch parse g ev)) = 1) \<and>
   (list_all stays_connected evs \<longrightarrow>
      timer_starts (snd (run_events parse g evs)) \<le> 1 \<and>
      (position_timer_started g \<longrightarrow>
         timer_starts (snd (run_events parse g evs)) = 0 \<and>
         position_timer_started (fst (run_events parse g evs))) \<and>
      (timer_starts (snd (run_events parse g evs)) = 1 \<longrightarrow>
         \<not> position_timer_started g \<and> position_timer_started (fst (run_events parse g evs)))) \<and>
   (\<not> stays_connected ev \<longrightarrow>
      \<not> position_timer_started (fst (dispatch parse g ev)) \<and>
      timer_starts (snd (dispatch parse g ev)) = 0 \<and>
      (position_timer_started g \<longrightarrow> TimerStop \<in> set (snd (dispatch parse g ev)))) \<and>
   (\<not> position_timer_started g \<and>
    get data ''type'' = Inr (JStr ''InitialPlayers'') \<and>
    get data ''payload'' = Inr (JArr (pre @ pd # later)) \<and>
    snd (roster_loop parse g pre) = None \<and>
    is_local_entry parse (user_id g) pd \<longrightarrow>
      timer_starts (snd (websocket_on_message parse g (Loaded data))) = 1 \<and>
      position_timer_started (fst (websocket_on_message parse g (Loaded data))))"
proof -
  have a: "timer_starts (snd (dispatch parse g ev)) \<noteq> 0 \<longrightarrow>
      \<not> position_timer_started g \<and>
      list_ex (is_local_entry parse (user_id g)) (roster_items ev)"
    using dispatch_start_local [of parse g ev] by blast
  have b: "\<not> position_timer_started g \<and> position_timer_started (fst (dispatch parse g ev)) \<longrightarrow>
      timer_starts (snd (dispatch parse g ev)) = 1"
  proof (cases "stays_connected ev")
    case True
    from dispatch_guarded [OF this, of g parse] show ?thesis
      by (auto simp: guarded_def)
  next
    case False
    from dispatch_drops [OF this, of parse g] show ?thesis by simp
  qed
  have c: "list_all stays_connected evs \<longrightarrow>
      timer_starts (snd (run_events parse g evs)) \<le> 1 \<and>
      (position_timer_started g \<longrightarrow>
         timer_starts (snd (run_events parse g evs)) = 0 \<and>
         position_timer_started (fst (run_events parse g evs))) \<and>
      (timer_starts (snd (run_events parse g evs)) = 1 \<longrightarrow>
         \<not> position_timer_started g \<and> position_timer_started (fst (run_events parse g evs)))"
    using run_events_guarded [of evs g parse]
    by (auto simp: guarded_def split: if_splits)
  have d: "\<not> stays_connected ev \<longrightarrow>
      \<not> position_timer_started (fst (dispatch parse g ev)) \<and>
      timer_starts (snd (dispatch parse g ev)) = 0 \<and>
      (position_timer_started g \<longrightarrow> TimerStop \<in> set (snd (dispatch parse g ev)))"
    using dispatch_drops [of ev parse g] by blast
  have e: "\<not> position_timer_started g \<and>
    get data ''type'' = Inr (JStr ''InitialPlayers'') \<and>
    get data ''payload'' = Inr (JArr (pre @ pd # later)) \<and>
    snd (roster_loop parse g pre) = None \<and>
    is_local_entry parse (user_id g) pd \<longrightarrow>
      timer_starts (snd (websocket_on_message parse g (Loaded data))) = 1 \<and>
      position_timer_started (fst (websocket_on_message parse g (Loaded data)))"
    using roster_message_restart [of g data pre pd later parse] by blast
  show ?thesis using a b c d e by blast
qed


lemmas event_defs = handler_defs roster_message_def handle_websocket_close_def
  handle_websocket_open_def keyPressEvent_def MAP_WIDTH_TILES_def MAP_HEIGHT_TILES_def
  py_max_def py_min_def

lemmas example_defs = broken_roster_def unknown_message_def position_message_def
  local_entry_def nameless_entry_def other_entry_def roster_message_def nan_z_message_def
  late_roster_def started_window_def

text \<open>
  The amended C2 on the fresh window of user 1: the roster with the local id starts the
  timer; followed by a key press, a timer tick, the opened signal and the same roster
  again it is still one start; the closed signal on the started window stops the timer
  and resets the flag; a roster whose second entry is the local one and whose third
  raises starts the timer.
\<close>

theorem timer_started_once_while_connected_witness:
  "timer_starts (snd (dispatch Map.empty (GameWindow_init 1) (MessageEvent (Loaded roster_message)))) \<noteq> 0 \<and>
   list_ex (is_local_entry Map.empty 1) (roster_items (MessageEvent (Loaded roster_message))) \<and>
   \<not> position_timer_started (GameWindow_init 1) \<and>
   position_timer_started started_window \<and>
   list_all stays_connected roster_twice \<and>
   timer_starts (snd (run_events Map.empty (GameWindow_init 1) roster_twice)) = 1 \<and>
   position_timer_started (fst (run_events Map.empty (GameWindow_init 1) roster_twice)) \<and>
   \<not> stays_connected ClosedEvent \<and>
   \<not> position_timer_started (fst (dispatch Map.empty started_window ClosedEvent)) \<and>
   TimerStop \<in> set (snd (dispatch Map.empty started_window ClosedEvent)) \<and>
   get late_roster ''payload'' = Inr (JArr ([other_entry] @ local_entry # [nameless_entry])) \<and>
   snd (roster_loop Map.empty (GameWindow_init 1) [other_entry]) = None \<and>
   is_local_entry Map.empty (user_id (GameWindow_init 1)) local_entry \<and>
   timer_starts (snd (websocket_on_message Map.empty (GameWindow_init 1) (Loaded late_roster))) = 1 \<and>
   position_timer_started (fst (websocket_on_message Map.empty (GameWindow_init 1) (Loaded late_roster)))"
proof -
  have h1: "timer_starts (snd (dispatch Map.empty (GameWindow_init 1)
              (MessageEvent (Loaded roster_message)))) \<noteq> 0"
    by (simp add: example_defs handler_defs)
  have h2: "\<not> position_timer_started (GameWindow_init 1)"
    by (simp add: GameWindow_init_def)
  have h3: "position_timer_started started_window"
    by (simp add: example_defs handler_defs)
  have h4: "list_all stays_connected roster_twice"
    by (simp add: roster_twice_def)
  have h5: "timer_starts (snd (run_events Map.empty (GameWindow_init 1) roster_twice)) = 1"
    by (simp add: roster_twice_def event_defs)
  have h6: "\<not> stays_connected ClosedEvent" by simp
  have h7: "get late_roster ''type'' = Inr (JStr ''InitialPlayers'')"
    "get late_roster ''payload'' = Inr (JArr ([other_entry] @ local_entry # [nameless_entry]))"
    by (simp_all add: late_roster_def get_def)
  have h8: "snd (roster_loop Map.empty (GameWindow_init 1) [other_entry]) = None"
    by (simp add: example_defs handler_defs)
  have h9: "is_local_entry Map.empty (user_id (GameWindow_init 1)) local_entry"
    by (simp add: is_local_entry_def example_defs handler_defs)
  have u: "user_id (GameWindow_init 1) = 1" by (simp add: GameWindow_init_def)
  note t1 = timer_started_once_while_connected
    [of Map.empty "GameWindow_init 1" "MessageEvent (Loaded roster_message)" roster_twice
      late_roster "[other_entry]" local_entry "[nameless_entry]"]
  note t2 = timer_started_once_while_connected
    [of Map.empty started_window ClosedEvent "[]" late_roster "[]" local_entry "[]"]
  show ?thesis
    using h1 h2 h3 h4 h5 h6 h7 h8 h9 t1 t2 unfolding u by blast
qed

text \<open>
  C2 as stated fails: the roster with the local id, the closed signal, and the same
  roster again start the timer twice in one session.
\<close>

theorem timer_restarted_after_close:
  "timer_starts (snd (run_events Map.empty (GameWindow_init 1) roster_close_roster)) = 2"
  by (simp add: roster_close_roster_def event_defs)


section \<open>Errors while handling a message\<close>

lemma plain_boxes: "list_all plain es \<Longrightarrow> boxes es = []"
  by (induction es rule: boxes.induct) simp_all

lemma plain_window: "list_all plain es \<Longrightarrow> StopThread \<notin> set es \<and> CloseWindow \<notin> set es"
  by (induction es) auto

lemma send_current_position_plain: "list_all plain (snd (send_current_position g))"
  by (simp add: send_current_position_def)

lemma adopt_initial_position_plain: "list_all plain (snd (adopt_initial_position g x y z))"
  by (simp add: adopt_initial_position_def Let_def split_beta send_current_position_plain)

lemma roster_entry_plain: "list_all plain (snd (fst (roster_entry parse g pd)))"
  by (simp add: roster_entry_def split_beta adopt_initial_position_plain
      split: sum.splits option.splits)

lemma roster_loop_plain: "list_all plain (snd (fst (roster_loop parse g items)))"
proof (induction items arbitrary: g)
  case Nil
  then show ?case by simp
next
  case (Cons pd items)
  obtain g1 es1 r1 where e: "roster_entry parse g pd = ((g1, es1), r1)"
    by (metis prod.collapse)
  have p1: "list_all plain es1" using roster_entry_plain [of parse g pd] e by simp
  show ?case
  proof (cases r1)
    case (Some err)
    with e p1 show ?thesis by simp
  next
    case None
    with e p1 Cons.IH [of g1] show ?thesis by (simp add: split_beta)
  qed
qed

lemma handle_data_plain: "list_all plain (snd (fst (handle_data parse g data)))"
  by (simp add: handle_data_def on_player_position_def on_player_disconnected_def
      on_initial_players_def remove_player_visual_def roster_loop_plain split_beta Let_def
      split: sum.splits option.splits)

text \<open>
  C8, as amended. A message that fails JSON decoding is logged and shown to the user in a
  critical message box, and leaves the state as it was. A message whose handling raises
  is logged and shown in a critical message box as well, exactly one, after whatever the
  handler did before the exception. A message that is dropped without an exception (an
  unknown type, a missing \<^verbatim>\<open>user_id\<close>) is only logged: no message box. In no case
  does the handler stop the worker or close the window, so the connection stays open.
\<close>

theorem handling_errors_are_shown:
  "websocket_on_message parse g JSONDecodeError = (g, [Print JsonDecodeLog, MessageBox JsonErrorBox]) \<and>
   (snd (handle_data parse g data) = Some e \<longrightarrow>
      websocket_on_message parse g (Loaded data) =
        (fst (fst (handle_data parse g data)),
         snd (fst (handle_data parse g data)) @
           [Print (HandlingErrorLog e), MessageBox (HandlingErrorBox e)]) \<and>
      boxes (snd (websocket_on_message parse g (Loaded data))) = [HandlingErrorBox e]) \<and>
   (snd (handle_data parse g data) = None \<longrightarrow>
      boxes (snd (websocket_on_message parse g (Loaded data))) = []) \<and>
   StopThread \<notin> set (snd (websocket_on_message parse g m)) \<and>
   CloseWindow \<notin> set (snd (websocket_on_message parse g m))"
proof -
  have p: "list_all plain (snd (fst (handle_data parse g d)))" for d
    by (rule handle_data_plain)
  have a: "snd (handle_data parse g data) = Some e \<longrightarrow>
      websocket_on_message parse g (Loaded data) =
        (fst (fst (handle_data parse g data)),
         snd (fst (handle_data parse g data)) @
           [Print (HandlingErrorLog e), MessageBox (HandlingErrorBox e)]) \<and>
      boxes (snd (websocket_on_message parse g (Loaded data))) = [HandlingErrorBox e]"
    using plain_boxes [OF p [of data]]
    by (simp add: websocket_on_message_def split_beta boxes_append)
  have b: "snd (handle_data parse g data) = None \<longrightarrow>
      boxes (snd (websocket_on_message parse g (Loaded data))) = []"
    using plain_boxes [OF p [of data]]
    by (simp add: websocket_on_message_def split_beta)
  have c: "StopThread \<notin> set (snd (websocket_on_message parse g m)) \<and>
           CloseWindow \<notin> set (snd (websocket_on_message parse g m))"
  proof (cases m)
    case JSONDecodeError
    then show ?thesis by (simp add: websocket_on_message_def)
  next
    case (Loaded d)
    then show ?thesis
      using plain_window [OF p [of d]]
      by (simp add: websocket_on_message_def split_beta split: option.splits)
  qed
  have d: "websocket_on_message parse g JSONDecodeError =
             (g, [Print JsonDecodeLog, MessageBox JsonErrorBox])"
    by (simp add: websocket_on_message_def)
  show ?thesis using a b c d by blast
qed


lemma websocket_on_message_state:
  "fst (websocket_on_message parse g (Loaded data)) = fst (fst (handle_data parse g data))"
  by (simp add: websocket_on_message_def split_beta split: option.splits)

lemma set_position_label_error:
  "snd (set_position_label g) = Some e \<Longrightarrow> fst (set_position_label g) = g"
  by (auto simp: set_position_label_def split: sum.splits)

lemma update_player_visual_error:
  assumes "snd (update_player_visual g uid x y z) = Some e"
  shows "fst (update_player_visual g uid x y z) =
           (if eq_int uid (user_id g) then g\<lparr>my_player_item := Some (x, y)\<rparr> else g)"
proof (cases "eq_int uid (user_id g)")
  case True
  with assms show ?thesis
    using set_position_label_error [of "g\<lparr>my_player_item := Some (x, y)\<rparr>" e]
    by (simp add: update_player_visual_def)
next
  case False
  with assms show ?thesis
    by (simp add: update_player_visual_def split: if_splits)
qed

lemma on_player_position_error:
  assumes "snd (on_player_position parse g payload) = Some e"
  shows "fst (fst (on_player_position parse g payload)) = g \<or>
         (\<exists>uid x y z. read_player parse payload = Inr (Some (uid, x, y, z)) \<and>
            eq_int uid (user_id g) \<and>
            fst (fst (on_player_position parse g payload)) =
              g\<lparr>player_x := x, player_y := y, player_z := z, my_player_item := Some (x, y)\<rparr>)"
proof (cases "read_player parse payload")
  case (Inl err)
  then show ?thesis by (simp add: on_player_position_def)
next
  case (Inr p)
  show ?thesis
  proof (cases p)
    case None
    with Inr assms show ?thesis by (simp add: on_player_position_def)
  next
    case (Some q)
    obtain uid x y z where q: "q = (uid, x, y, z)" by (cases q)
    let ?g1 = "if eq_int uid (user_id g)
               then g\<lparr>player_x := x, player_y := y, player_z := z\<rparr> else g"
    have r: "on_player_position parse g payload =
               ((fst (update_player_visual ?g1 uid x y z), []),
                snd (update_player_visual ?g1 uid x y z))"
      using Inr Some q by (simp add: on_player_position_def split_beta Let_def)
    with assms have "snd (update_player_visual ?g1 uid x y z) = Some e" by simp
    from update_player_visual_error [OF this] show ?thesis
      using r Inr Some q by (cases "eq_int uid (user_id g)") simp_all
  qed
qed

lemma on_player_disconnected_error:
  "snd (on_player_disconnected g payload) = Some e \<Longrightarrow>
   fst (fst (on_player_disconnected g payload)) = g"
  by (auto simp: on_player_disconnected_def remove_player_visual_def split_beta
      split: sum.splits if_splits option.splits)

lemma handle_data_error:
  assumes "get data ''type'' \<noteq> Inr (JStr ''InitialPlayers'')"
    and "snd (handle_data parse g data) = Some e"
  shows "fst (fst (handle_data parse g data)) = g \<or>
         (\<exists>payload uid x y z. get data ''payload'' = Inr payload \<and>
            read_player parse payload = Inr (Some (uid, x, y, z)) \<and>
            eq_int uid (user_id g) \<and>
            fst (fst (handle_data parse g data)) =
              g\<lparr>player_x := x, player_y := y, player_z := z, my_player_item := Some (x, y)\<rparr>)"
proof (cases "get data ''type''")
  case (Inl err)
  then show ?thesis by (simp add: handle_data_def)
next
  case (Inr msg_type)
  note t = this
  show ?thesis
  proof (cases "get data ''payload''")
    case (Inl err)
    with t show ?thesis by (simp add: handle_data_def)
  next
    case (Inr payload)
    have nr: "msg_type \<noteq> JStr ''InitialPlayers''" using t assms(1) by simp
    show ?thesis
    proof (cases "msg_type = JStr ''PlayerPosition'' \<and> truthy payload")
      case True
      then have h: "handle_data parse g data = on_player_position parse g payload"
        using t Inr by (simp add: handle_data_def)
      with assms(2) on_player_position_error [of parse g payload e] Inr show ?thesis
        by auto
    next
      case False
      note np = this
      show ?thesis
      proof (cases "msg_type = JStr ''PlayerDisconnected'' \<and> truthy payload")
        case True
        then have h: "handle_data parse g data = on_player_disconnected g payload"
          using t Inr np by (auto simp: handle_data_def)
        with assms(2) on_player_disconnected_error [of g payload e] show ?thesis by simp
      next
        case False
        then have "handle_data parse g data = ((g, [Print (UnknownMessage data)]), None)"
          using t Inr np nr by (auto simp: handle_data_def)
        then show ?thesis by simp
      qed
    qed
  qed
qed

lemma roster_entry_error:
  assumes "snd (roster_entry parse g pd) = Some e"
  shows "fst (fst (roster_entry parse g pd)) = g \<or>
         (\<exists>uid x y z. read_player parse pd = Inr (Some (uid, x, y, z)) \<and>
            eq_int uid (user_id g) \<and>
            fst (fst (roster_entry parse g pd)) =
              (fst (adopt_initial_position g x y z))\<lparr>my_player_item := Some (x, y)\<rparr>)"
proof (cases "read_player parse pd")
  case (Inl err)
  then show ?thesis by (simp add: roster_entry_def)
next
  case (Inr p)
  show ?thesis
  proof (cases p)
    case None
    with Inr assms show ?thesis by (simp add: roster_entry_def)
  next
    case (Some q)
    obtain uid x y z where q: "q = (uid, x, y, z)" by (cases q)
    let ?g1 = "if eq_int uid (user_id g) then fst (adopt_initial_position g x y z) else g"
    have u: "user_id ?g1 = user_id g" by (simp add: adopt_initial_position_user_id)
    have r: "fst (fst (roster_entry parse g pd)) = fst (update_player_visual ?g1 uid x y z)"
      "snd (roster_entry parse g pd) = snd (update_player_visual ?g1 uid x y z)"
      using Inr Some q by (simp_all add: roster_entry_def split_beta)
    with assms have "snd (update_player_visual ?g1 uid x y z) = Some e" by simp
    from update_player_visual_error [OF this] show ?thesis
      using r Inr Some q u by (cases "eq_int uid (user_id g)") simp_all
  qed
qed

lemma roster_loop_stops:
  assumes "snd (roster_loop parse g pre) = None"
    and "snd (roster_entry parse (fst (fst (roster_loop parse g pre))) bad) = Some e"
  shows "fst (fst (roster_loop parse g (pre @ bad # later))) =
           fst (fst (roster_entry parse (fst (fst (roster_loop parse g pre))) bad))"
    and "snd (roster_loop parse g (pre @ bad # later)) = Some e"
  using assms by (simp_all add: roster_loop_append split_beta)


lemma roster_message_state:
  assumes "get data ''type'' = Inr (JStr ''InitialPlayers'')"
    and "get data ''payload'' = Inr (JArr items)"
  shows "fst (websocket_on_message parse g (Loaded data)) = fst (fst (roster_loop parse g items))"
proof (cases items)
  case Nil
  with assms show ?thesis
    by (simp add: websocket_on_message_state handle_data_def on_initial_players_def)
next
  case (Cons a list)
  with assms show ?thesis
    by (simp add: websocket_on_message_state handle_data_def on_initial_players_def split_beta)
qed

text \<open>
  C3, as amended. The handler has no rollback, and what it guarantees is atomicity per
  player entry. A message that fails JSON decoding leaves the state as it was. For a
  message that is not an \<^verbatim>\<open>InitialPlayers\<close> roster, an exception leaves the state as it
  was, or, when it is the label that fails on a non-finite coordinate of a
  \<^verbatim>\<open>PlayerPosition\<close> for the local id, with the local position replaced as a whole
  (x, y and z, and the drawn item): never with a part of the position. A roster is
  applied entry by entry in order: an entry that raises leaves the state as it was before
  that entry or with that entry adopted as a whole, the entries before it stay applied,
  and the entries after it are not looked at.
\<close>

theorem handling_is_atomic_per_entry:
  "fst (websocket_on_message parse g JSONDecodeError) = g \<and>
   (get data ''type'' \<noteq> Inr (JStr ''InitialPlayers'') \<and>
    snd (handle_data parse g data) = Some e \<longrightarrow>
      fst (websocket_on_message parse g (Loaded data)) = g \<or>
      (\<exists>payload uid x y z. get data ''payload'' = Inr payload \<and>
         read_player parse payload = Inr (Some (uid, x, y, z)) \<and>
         eq_int uid (user_id g) \<and>
         fst (websocket_on_message parse g (Loaded data)) =
           g\<lparr>player_x := x, player_y := y, player_z := z, my_player_item := Some (x, y)\<rparr>)) \<and>
   (get roster ''type'' = Inr (JStr ''InitialPlayers'') \<and>
    get roster ''payload'' = Inr (JArr items) \<longrightarrow>
      fst (websocket_on_message parse g (Loaded roster)) = fst (fst (roster_loop parse g items))) \<and>
   (snd (roster_entry parse g pd) = Some e1 \<longrightarrow>
      fst (fst (roster_entry parse g pd)) = g \<or>
      (\<exists>uid x y z. read_player parse pd = Inr (Some (uid, x, y, z)) \<and>
         eq_int uid (user_id g) \<and>
         fst (fst (roster_entry parse g pd)) =
           (fst (adopt_initial_position g x y z))\<lparr>my_player_item := Some (x, y)\<rparr>)) \<and>
   (snd (roster_loop parse g pre) = None \<and>
    snd (roster_entry parse (fst (fst (roster_loop parse g pre))) bad) = Some e2 \<longrightarrow>
      fst (fst (roster_loop parse g (pre @ bad # later))) =
        fst (fst (roster_entry parse (fst (fst (roster_loop parse g pre))) bad)) \<and>
      snd (roster_loop parse g (pre @ bad # later)) = Some e2)"
proof -
  have a: "fst (websocket_on_message parse g JSONDecodeError) = g"
    by (simp add: websocket_on_message_def)
  show ?thesis
    unfolding websocket_on_message_state
    using a handle_data_error [of data parse g e] roster_message_state [of roster items parse g]
      roster_entry_error [of parse g pd e1] roster_loop_stops [of parse g pre bad e2 later]
    unfolding websocket_on_message_state
    by blast
qed

text \<open>
  C3 as stated fails: in \<open>broken_roster\<close> the first entry, for the local id, is applied
  (position, timer, flag, frame), the second raises \<^verbatim>\<open>TypeError\<close> for its missing
  \<^verbatim>\<open>x\<close>, and the third, a well-formed entry for player 7, is never applied: the
  state is neither the one before the message nor the one with the roster applied.
\<close>

theorem roster_error_leaves_partial_update:
  "websocket_on_message Map.empty (GameWindow_init 1) (Loaded broken_roster) =
     ((GameWindow_init 1)
        \<lparr>player_x := Fin 2, player_y := Fin 3, player_z := Fin 0,
         my_player_item := Some (Fin 2, Fin 3),
         position_label := (2, 3),
         position_timer_started := True,
         last_sent_x := Fin 2, last_sent_y := Fin 3, last_sent_z := Fin 0\<rparr>,
      [Print ReceivedInitialPlayers, Print SetInitialPosition, TimerStart 100,
       Print TimerStartedLog, SendMessage (PlayerPosition 1 (Fin 2) (Fin 3) (Fin 0)),
       Print (HandlingErrorLog TypeError), MessageBox (HandlingErrorBox TypeError)])"
  by (simp add: handler_defs broken_roster_def)


text \<open>
  The amended C3 on a \<^verbatim>\<open>PlayerPosition\<close> whose \<^verbatim>\<open>x\<close> is null, on a roster entry
  without coordinates, and on the roster \<open>broken_roster\<close>, whose second entry is that one.
\<close>

theorem handling_is_atomic_per_entry_witness:
  "get (position_message (JInt 7) JNull (JInt 1)) ''type'' \<noteq> Inr (JStr ''InitialPlayers'') \<and>
   snd (handle_data Map.empty (GameWindow_init 1) (position_message (JInt 7) JNull (JInt 1))) =
     Some TypeError \<and>
   fst (websocket_on_message Map.empty (GameWindow_init 1)
         (Loaded (position_message (JInt 7) JNull (JInt 1)))) = GameWindow_init 1 \<and>
   get broken_roster ''type'' = Inr (JStr ''InitialPlayers'') \<and>
   get broken_roster ''payload'' = Inr (JArr [local_entry, nameless_entry, other_entry]) \<and>
   snd (roster_entry Map.empty (GameWindow_init 1) nameless_entry) = Some TypeError \<and>
   fst (fst (roster_entry Map.empty (GameWindow_init 1) nameless_entry)) = GameWindow_init 1 \<and>
   snd (roster_loop Map.empty (GameWindow_init 1) [local_entry]) = None \<and>
   snd (roster_entry Map.empty (fst (fst (roster_loop Map.empty (GameWindow_init 1) [local_entry])))
         nameless_entry) = Some TypeError \<and>
   fst (websocket_on_message Map.empty (GameWindow_init 1) (Loaded broken_roster)) =
     fst (fst (roster_loop Map.empty (GameWindow_init 1) [local_entry]))"
proof -
  have h1: "get (position_message (JInt 7) JNull (JInt 1)) ''type'' \<noteq> Inr (JStr ''InitialPlayers'')"
    by (simp add: example_defs get_def)
  have h2: "snd (handle_data Map.empty (GameWindow_init 1) (position_message (JInt 7) JNull (JInt 1))) =
     Some TypeError"
    by (simp add: example_defs handler_defs)
  have h3: "get broken_roster ''type'' = Inr (JStr ''InitialPlayers'')"
    "get broken_roster ''payload'' = Inr (JArr [local_entry, nameless_entry, other_entry])"
    by (simp_all add: example_defs get_def)
  have h4: "snd (roster_entry Map.empty (GameWindow_init 1) nameless_entry) = Some TypeError"
    by (simp add: example_defs handler_defs)
  have h5: "snd (roster_loop Map.empty (GameWindow_init 1) [local_entry]) = None"
    by (simp add: example_defs handler_defs)
  have h6: "snd (roster_entry Map.empty (fst (fst (roster_loop Map.empty (GameWindow_init 1) [local_entry])))
         nameless_entry) = Some TypeError"
    by (simp add: example_defs handler_defs)
  have h7: "fst (fst (roster_entry Map.empty (GameWindow_init 1) nameless_entry)) = GameWindow_init 1"
    by (simp add: example_defs handler_defs)
  have h8: "fst (websocket_on_message Map.empty (GameWindow_init 1)
         (Loaded (position_message (JInt 7) JNull (JInt 1)))) = GameWindow_init 1"
    by (simp add: example_defs handler_defs)
  have h9: "fst (fst (roster_entry Map.empty (fst (fst (roster_loop Map.empty (GameWindow_init 1) [local_entry])))
         nameless_entry)) = fst (fst (roster_loop Map.empty (GameWindow_init 1) [local_entry]))"
    by (simp add: example_defs handler_defs)
  show ?thesis
    using h1 h2 h3 h4 h5 h6 h7 h8 h9
      handling_is_atomic_per_entry
        [of Map.empty "GameWindow_init 1" "position_message (JInt 7) JNull (JInt 1)" TypeError
          broken_roster "[local_entry, nameless_entry, other_entry]" nameless_entry TypeError
          "[local_entry]" nameless_entry TypeError "[other_entry]"]
    by simp
qed

text \<open>
  The amended C8 on a \<^verbatim>\<open>PlayerPosition\<close> whose \<^verbatim>\<open>x\<close> is null, which raises
  \<^verbatim>\<open>TypeError\<close> and is shown, and on a message of unknown type, which is not.
\<close>

theorem handling_errors_are_shown_witness:
  "snd (handle_data Map.empty (GameWindow_init 1) (position_message (JInt 7) JNull (JInt 1))) =
     Some TypeError \<and>
   boxes (snd (websocket_on_message Map.empty (GameWindow_init 1)
           (Loaded (position_message (JInt 7) JNull (JInt 1))))) = [HandlingErrorBox TypeError] \<and>
   snd (handle_data Map.empty (GameWindow_init 1) unknown_message) = None \<and>
   boxes (snd (websocket_on_message Map.empty (GameWindow_init 1) (Loaded unknown_message))) = []"
proof -
  have h1: "snd (handle_data Map.empty (GameWindow_init 1) (position_message (JInt 7) JNull (JInt 1))) =
     Some TypeError"
    by (simp add: example_defs handler_defs)
  have h2: "snd (handle_data Map.empty (GameWindow_init 1) unknown_message) = None"
    by (simp add: example_defs handler_defs)
  show ?thesis
    using h1 h2
      handling_errors_are_shown
        [of Map.empty "GameWindow_init 1" "position_message (JInt 7) JNull (JInt 1)" TypeError]
      handling_errors_are_shown
        [of Map.empty "GameWindow_init 1" unknown_message]
    by blast
qed

text \<open>
  C8 as stated fails: undecodable text, and a \<^verbatim>\<open>PlayerPosition\<close> whose \<^verbatim>\<open>x\<close> is
  null, each end in a critical message box.
\<close>

theorem decode_error_is_shown:
  "snd (websocket_on_message Map.empty (GameWindow_init 1) JSONDecodeError) =
     [Print JsonDecodeLog, MessageBox JsonErrorBox] \<and>
   snd (websocket_on_message Map.empty (GameWindow_init 1)
         (Loaded (position_message (JInt 7) JNull (JInt 1)))) =
     [Print (HandlingErrorLog TypeError), MessageBox (HandlingErrorBox TypeError)]"
  by (simp add: example_defs handler_defs)


section \<open>No second send of a position\<close>
















lemma frames_plain_Print: "frames (Print l # es) = frames es"
  by simp














end
